theory Spec2Isabelle
  imports Complex_Main
begin

section \<open>The telemetry session engine of Dashboard.js\<close>

text \<open>
  The dashboard script keeps one session in module-level variables and changes it from
  event handlers that run one at a time. The embedding below follows the revision of
  the script that carries the client-side simulator and the session history (the
  functions \<open>processSensorData\<close>, \<open>updateChart\<close>, \<open>checkForAlerts\<close>,
  \<open>updateSessionStatistics\<close>, \<open>saveRecentSession\<close>, \<open>loadRecentSessions\<close>,
  \<open>startSimulator\<close>, \<open>stopSimulator\<close>, \<open>simulatorTick\<close>, \<open>startSession\<close> and
  \<open>stopSession\<close>). Every handler is a function from the state before to the state after;
  what a handler reads from outside the script (the clock, \<open>Math.random\<close>, the threshold
  slider, the storage slot) is an argument.

  A finite JavaScript number is a real, and the three non-finite numbers are kept. The
  sums and the quotient of the session statistics are rounded to the nearest double and
  overflow to an infinity, as the additions and the division of the script do. The
  simulator's arithmetic on its random draws is on reals, without rounding. The sign of
  zero is not modelled.
\<close>

subsection \<open>JavaScript values\<close>

datatype jsnum = Fin real | NaN | PosInf | NegInf

datatype jsval =
    JUndefined
  | JNull
  | JBool bool
  | JNum jsnum
  | JStr string
  | JDate "int option"
  | JArr "jsval list"
  | JObj "(string \<times> jsval) list"

text \<open>
  \<open>JDate (Some t)\<close> is a Date whose time value is \<open>t\<close> milliseconds; \<open>JDate None\<close> is an
  invalid Date. An object is the list of its own properties.
\<close>

datatype exn = TypeError | SyntaxError | SecurityError

text \<open>ToBoolean, as applied by \<open>!x\<close> and \<open>if (x)\<close>.\<close>

fun truthy :: "jsval \<Rightarrow> bool" where
  "truthy JUndefined = False"
| "truthy JNull = False"
| "truthy (JBool b) = b"
| "truthy (JNum (Fin x)) = (x \<noteq> 0)"
| "truthy (JNum NaN) = False"
| "truthy (JNum PosInf) = True"
| "truthy (JNum NegInf) = True"
| "truthy (JStr s) = (s \<noteq> [])"
| "truthy (JDate t) = True"
| "truthy (JArr xs) = True"
| "truthy (JObj fs) = True"

fun typeof :: "jsval \<Rightarrow> string" where
  "typeof JUndefined = ''undefined''"
| "typeof JNull = ''object''"
| "typeof (JBool b) = ''boolean''"
| "typeof (JNum x) = ''number''"
| "typeof (JStr s) = ''string''"
| "typeof (JDate t) = ''object''"
| "typeof (JArr xs) = ''object''"
| "typeof (JObj fs) = ''object''"

text \<open>
  Reading the property \<open>k\<close> of a value that is neither \<open>undefined\<close> nor \<open>null\<close>: an object
  gives the property or \<open>undefined\<close>; a primitive, a Date or an array has none of the
  property names the script asks for. The script reads properties only behind a
  truthiness guard, so the two values on which JavaScript throws are never passed.
\<close>

fun getProp :: "jsval \<Rightarrow> string \<Rightarrow> jsval" where
  "getProp (JObj fs) k = (case map_of fs k of Some v \<Rightarrow> v | None \<Rightarrow> JUndefined)"
| "getProp v k = JUndefined"

subsection \<open>Arithmetic on numbers\<close>

text \<open>
  Rounding a real to a double (IEEE 754 binary64, round to nearest, ties to even).
  \<open>pow2 k\<close> is 2 to the power \<open>k\<close>. The binade of a positive number is the exponent of the
  largest power of two not above it, and at least -1022, where the subnormal numbers
  begin. Within a binade the doubles are the multiples of \<open>pow2 (e - 52)\<close>; a result at or
  beyond \<open>pow2 1024\<close> is an infinity.
\<close>

definition pow2 :: "int \<Rightarrow> real" where
  "pow2 k = (if 0 \<le> k then 2 ^ nat k else 1 / 2 ^ nat (- k))"

definition roundHalfEven :: "real \<Rightarrow> int" where
  "roundHalfEven x =
     (let f = \<lfloor>x\<rfloor>; d = x - of_int f
      in if d < 1 / 2 then f else if 1 / 2 < d then f + 1 else if even f then f else f + 1)"

definition binade :: "real \<Rightarrow> int" where
  "binade a = max \<lfloor>log 2 a\<rfloor> (- 1022)"

definition roundIn :: "int \<Rightarrow> real \<Rightarrow> jsnum" where
  "roundIn e x =
     (let u = pow2 (e - 52);
          r = of_int (roundHalfEven (\<bar>x\<bar> / u)) * u
      in if pow2 1024 \<le> r then (if 0 < x then PosInf else NegInf) else Fin (sgn x * r))"

definition toDouble :: "real \<Rightarrow> jsnum" where
  "toDouble x = (if x = 0 then Fin 0 else roundIn (binade \<bar>x\<bar>) x)"

text \<open>A real that is a double: rounding leaves it as it is.\<close>

definition exactDouble :: "real \<Rightarrow> bool" where
  "exactDouble x = (toDouble x = Fin x)"

text \<open>\<open>Number.MAX_VALUE\<close>.\<close>

definition maxDouble :: real where
  "maxDouble = (2 ^ 53 - 1) * 2 ^ 971"

text \<open>The operator \<open>+\<close> on two numbers.\<close>

fun js_add :: "jsnum \<Rightarrow> jsnum \<Rightarrow> jsnum" where
  "js_add NaN y = NaN"
| "js_add x NaN = NaN"
| "js_add (Fin a) (Fin b) = toDouble (a + b)"
| "js_add PosInf NegInf = NaN"
| "js_add NegInf PosInf = NaN"
| "js_add PosInf y = PosInf"
| "js_add x PosInf = PosInf"
| "js_add NegInf y = NegInf"
| "js_add x NegInf = NegInf"

text \<open>Division of a number by the length of an array.\<close>

fun js_div_length :: "jsnum \<Rightarrow> nat \<Rightarrow> jsnum" where
  "js_div_length NaN n = NaN"
| "js_div_length PosInf n = PosInf"
| "js_div_length NegInf n = NegInf"
| "js_div_length (Fin a) n =
     (if n = 0 then (if a = 0 then NaN else if 0 < a then PosInf else NegInf)
      else toDouble (a / real n))"

fun js_max2 :: "jsnum \<Rightarrow> jsnum \<Rightarrow> jsnum" where
  "js_max2 NaN y = NaN"
| "js_max2 x NaN = NaN"
| "js_max2 PosInf y = PosInf"
| "js_max2 x PosInf = PosInf"
| "js_max2 NegInf y = y"
| "js_max2 x NegInf = x"
| "js_max2 (Fin a) (Fin b) = Fin (max a b)"

text \<open>\<open>Math.max(...xs)\<close>: \<open>-Infinity\<close> for no argument, \<open>NaN\<close> as soon as one argument is.\<close>

definition Math_max :: "jsnum list \<Rightarrow> jsnum" where
  "Math_max xs = foldl js_max2 NegInf xs"

fun js_ge :: "jsnum \<Rightarrow> jsnum \<Rightarrow> bool" where
  "js_ge NaN y = False"
| "js_ge x NaN = False"
| "js_ge PosInf y = True"
| "js_ge x NegInf = True"
| "js_ge (Fin a) (Fin b) = (b \<le> a)"
| "js_ge (Fin a) PosInf = False"
| "js_ge NegInf y = False"

fun Number_isFinite :: "jsnum \<Rightarrow> bool" where
  "Number_isFinite (Fin a) = True"
| "Number_isFinite x = False"

text \<open>The remainder operator \<open>%\<close> on integers: the result has the sign of the dividend.\<close>

definition js_rem :: "int \<Rightarrow> int \<Rightarrow> int" where
  "js_rem a b = sgn a * (\<bar>a\<bar> mod \<bar>b\<bar>)"

subsection \<open>State\<close>

text \<open>
  An accepted reading. \<open>processSensorData\<close> stores the object it was given; the record is
  that object seen through the guard it has passed: the two properties the guard found
  to be numbers are numbers, the others are whatever the object holds.
\<close>

record sample =
  timestamp :: jsval
  eyeBlinkRate :: jsnum
  eyeClosureDuration :: jsval
  headMovement :: jsval
  drowsinessLevel :: jsnum
  alertTriggered :: jsval
  batteryLevel :: jsval

text \<open>
  \<open>drowsinessChart.data\<close>: the labels and the two datasets. A label is the text of the
  reading's time of day; the model keeps the time value it is printed from.
\<close>

record chart =
  labels :: "int option list"
  dataset0 :: "jsnum list"
  dataset1 :: "jsnum list"

record tilt =
  pitch :: real
  roll :: real
  yaw :: real

record simstate =
  lastBlinkMs :: real
  blinkIntervalMs :: real
  sim_batteryLevel :: real
  tiltCooldown :: int
  baseTilt :: tilt

datatype alert_state = Active | Clear

text \<open>
  The content of the storage key \<open>recentSessions\<close>, by what reading and parsing it does:
  \<open>getItem\<close> throws, \<open>getItem\<close> gives \<open>null\<close> or the empty text, \<open>JSON.parse\<close> throws on the
  text, or \<open>JSON.parse\<close> gives a value.
\<close>

datatype slot = Unreadable | Absent | Unparseable | Holds jsval

text \<open>
  The script's variables, the page elements that show the alert state and the session
  statistics, and the two pieces of the browser the script acts on: the interval timers
  that are scheduled and the storage slot. Timer identifiers are handed out by the
  browser as positive integers; \<open>nextTimerId\<close> is the next one.
\<close>

record engine =
  isSessionActive :: bool
  sessionStartTime :: "int option"
  drowsinessChart :: chart
  totalAlerts :: nat
  sessionData :: "sample list"
  simulatorIntervalId :: "nat option"
  simulatorState :: simstate
  recentSessions :: "jsval list"
  dom_alertStatus :: alert_state
  dom_totalAlerts :: nat
  dom_sessionDuration :: "int \<times> int \<times> int"
  dom_avgBlinkRate :: "jsnum option"
  dom_peakDrowsiness :: "jsnum option"
  timers :: "nat list"
  nextTimerId :: nat
  localStorage :: slot

definition zeroTilt :: tilt where
  "zeroTilt = \<lparr>pitch = 0, roll = 0, yaw = 0\<rparr>"

definition emptyChart :: chart where
  "emptyChart = \<lparr>labels = [], dataset0 = [], dataset1 = []\<rparr>"

text \<open>The state when the script has been read and the chart has been built.\<close>

definition initial :: "slot \<Rightarrow> engine" where
  "initial sl =
     \<lparr>isSessionActive = False, sessionStartTime = None, drowsinessChart = emptyChart,
      totalAlerts = 0, sessionData = [], simulatorIntervalId = None,
      simulatorState = \<lparr>lastBlinkMs = 0, blinkIntervalMs = 3000, sim_batteryLevel = 100,
                        tiltCooldown = 0, baseTilt = zeroTilt\<rparr>,
      recentSessions = [], dom_alertStatus = Clear, dom_totalAlerts = 0,
      dom_sessionDuration = (0, 0, 0), dom_avgBlinkRate = None, dom_peakDrowsiness = None,
      timers = [], nextTimerId = 1, localStorage = sl\<rparr>"

subsection \<open>The rolling window and the session history\<close>

definition resetChart :: "engine \<Rightarrow> engine" where
  "resetChart s = s\<lparr>drowsinessChart := emptyChart\<rparr>"

text \<open>
  The body of the \<open>try\<close> block of \<open>loadRecentSessions\<close>, then the whole function with its
  \<open>catch\<close>. The result type leaves room for an exception that escapes. The case on \<open>JArr\<close>
  is the test \<open>Array.isArray\<close>.
\<close>

definition loadRecentSessions_try :: "engine \<Rightarrow> exn + engine" where
  "loadRecentSessions_try s =
     (case localStorage s of
        Unreadable \<Rightarrow> Inl SecurityError
      | Absent \<Rightarrow> Inr (s\<lparr>recentSessions := []\<rparr>)
      | Unparseable \<Rightarrow> Inl SyntaxError
      | Holds v \<Rightarrow>
          (case v of JArr xs \<Rightarrow> Inr (s\<lparr>recentSessions := xs\<rparr>)
                   | _ \<Rightarrow> Inr (s\<lparr>recentSessions := []\<rparr>)))"

definition loadRecentSessions :: "engine \<Rightarrow> exn + engine" where
  "loadRecentSessions s =
     (case loadRecentSessions_try s of
        Inl e \<Rightarrow> Inr (s\<lparr>recentSessions := []\<rparr>)
      | Inr s' \<Rightarrow> Inr s')"

text \<open>
  The summary object of \<open>saveRecentSession\<close>. Its \<open>start\<close> and \<open>end\<close> are the ISO texts of
  two valid dates; the model keeps the dates they are printed from.
\<close>

definition summary :: "int \<Rightarrow> int \<Rightarrow> engine \<Rightarrow> jsval" where
  "summary t0 endTime s =
     (let durationMs = endTime - t0;
          avgBlink = js_div_length (foldl js_add (Fin 0) (map eyeBlinkRate (sessionData s)))
                       (length (sessionData s));
          peakDrowsy = Math_max (map drowsinessLevel (sessionData s))
      in JObj [(''start'', JDate (Some t0)),
               (''end'', JDate (Some endTime)),
               (''durationMs'', JNum (Fin (real_of_int durationMs))),
               (''totalAlerts'', JNum (Fin (real (totalAlerts s)))),
               (''avgBlinkRate'', JNum (if Number_isFinite avgBlink then avgBlink else Fin 0)),
               (''peakDrowsiness'', JNum (if Number_isFinite peakDrowsy then peakDrowsy else Fin 0)),
               (''points'', JNum (Fin (real (length (sessionData s)))))])"

text \<open>
  \<open>saveRecentSession\<close>, with the clock read \<open>endTime\<close>. \<open>writable\<close> tells whether
  \<open>localStorage.setItem\<close> returns; when it throws the script goes on without the write.
\<close>

definition saveRecentSession :: "int \<Rightarrow> bool \<Rightarrow> engine \<Rightarrow> engine" where
  "saveRecentSession endTime writable s =
     (case sessionStartTime s of
        None \<Rightarrow> s
      | Some t0 \<Rightarrow>
          if length (sessionData s) = 0 then s
          else
            let rs = take 10 (summary t0 endTime s # recentSessions s);
                s1 = s\<lparr>recentSessions := rs\<rparr>
            in if writable then s1\<lparr>localStorage := Holds (JArr rs)\<rparr> else s1)"

subsection \<open>The simulator's timer\<close>

definition startSimulator :: "real \<Rightarrow> engine \<Rightarrow> engine" where
  "startSimulator nowMs s =
     (if (case simulatorIntervalId s of None \<Rightarrow> False | Some i \<Rightarrow> i \<noteq> 0) then s
      else
        let st = (simulatorState s)\<lparr>lastBlinkMs := nowMs, sim_batteryLevel := 100,
                                     tiltCooldown := 0, baseTilt := zeroTilt\<rparr>;
            i = nextTimerId s
        in s\<lparr>simulatorState := st, simulatorIntervalId := Some i,
               timers := i # timers s, nextTimerId := Suc i\<rparr>)"

definition stopSimulator :: "engine \<Rightarrow> engine" where
  "stopSimulator s =
     (case simulatorIntervalId s of
        None \<Rightarrow> s
      | Some i \<Rightarrow>
          if i \<noteq> 0 then s\<lparr>timers := removeAll i (timers s), simulatorIntervalId := None\<rparr>
          else s)"

subsection \<open>Alerts and statistics\<close>

definition triggerAlert :: "sample \<Rightarrow> engine \<Rightarrow> engine" where
  "triggerAlert data s =
     s\<lparr>totalAlerts := totalAlerts s + 1, dom_totalAlerts := totalAlerts s + 1,
       dom_alertStatus := Active\<rparr>"

definition clearAlert :: "engine \<Rightarrow> engine" where
  "clearAlert s = s\<lparr>dom_alertStatus := Clear\<rparr>"

definition checkForAlerts :: "sample \<Rightarrow> engine \<Rightarrow> engine" where
  "checkForAlerts data s =
     (if truthy (alertTriggered data) then triggerAlert data s else clearAlert s)"

text \<open>
  \<open>updateSessionStatistics\<close>, with the clock read \<open>now\<close>. A start time that is still
  \<open>null\<close> counts as 0 in the subtraction.
\<close>

definition updateSessionStatistics :: "int \<Rightarrow> engine \<Rightarrow> engine" where
  "updateSessionStatistics now s =
     (if length (sessionData s) = 0 then s
      else
        let duration = now - (case sessionStartTime s of None \<Rightarrow> 0 | Some t0 \<Rightarrow> t0);
            hours = duration div 3600000;
            minutes = js_rem duration 3600000 div 60000;
            seconds = js_rem duration 60000 div 1000;
            avgBlinkRate = js_div_length
                             (foldl js_add (Fin 0) (map eyeBlinkRate (sessionData s)))
                             (length (sessionData s));
            peakDrowsiness = Math_max (map drowsinessLevel (sessionData s))
        in s\<lparr>dom_sessionDuration := (hours, minutes, seconds),
              dom_avgBlinkRate := Some avgBlinkRate,
              dom_peakDrowsiness := Some peakDrowsiness\<rparr>)"

subsection \<open>Ingesting a reading\<close>

text \<open>
  The guard of \<open>processSensorData\<close>: \<open>None\<close> when the guard rejects, the stored reading
  otherwise. Behind the guard both properties are numbers; the case distinction takes
  the numbers out of the values and its last line is never reached.
\<close>

definition validate :: "jsval \<Rightarrow> sample option" where
  "validate data =
     (if \<not> truthy data \<or> \<not> truthy (getProp data ''headMovement'')
         \<or> typeof (getProp data ''eyeBlinkRate'') \<noteq> ''number''
         \<or> typeof (getProp data ''drowsinessLevel'') \<noteq> ''number''
      then None
      else
        (case (getProp data ''eyeBlinkRate'', getProp data ''drowsinessLevel'') of
           (JNum b, JNum d) \<Rightarrow>
             Some \<lparr>timestamp = getProp data ''timestamp'', eyeBlinkRate = b,
                   eyeClosureDuration = getProp data ''eyeClosureDuration'',
                   headMovement = getProp data ''headMovement'', drowsinessLevel = d,
                   alertTriggered = getProp data ''alertTriggered'',
                   batteryLevel = getProp data ''batteryLevel''\<rparr>
         | _ \<Rightarrow> None))"

text \<open>
  \<open>x.toFixed(n)\<close> returns for a number and throws a TypeError for every other value;
  \<open>x.toLocaleTimeString()\<close> returns for a Date and throws for every other value.
\<close>

fun has_toFixed :: "jsval \<Rightarrow> bool" where
  "has_toFixed (JNum x) = True"
| "has_toFixed v = False"

fun has_toLocaleTimeString :: "jsval \<Rightarrow> bool" where
  "has_toLocaleTimeString (JDate t) = True"
| "has_toLocaleTimeString v = False"

text \<open>
  \<open>updateDashboardDisplays\<close> writes the gauges of the latest reading, which no later step
  reads; the model keeps whether it returns or throws.
\<close>

definition updateDashboardDisplays :: "sample \<Rightarrow> exn + unit" where
  "updateDashboardDisplays data =
     (if \<not> has_toFixed (getProp (headMovement data) ''pitch'') then Inl TypeError
      else if \<not> has_toFixed (getProp (headMovement data) ''roll'') then Inl TypeError
      else if \<not> has_toFixed (getProp (headMovement data) ''yaw'') then Inl TypeError
      else if \<not> has_toFixed (batteryLevel data) then Inl TypeError
      else if \<not> has_toLocaleTimeString (timestamp data) then Inl TypeError
      else Inr ())"

definition updateChart :: "sample \<Rightarrow> chart \<Rightarrow> exn + chart" where
  "updateChart data c =
     (case timestamp data of
        JDate timeLabel \<Rightarrow>
          let c1 = c\<lparr>labels := labels c @ [timeLabel],
                     dataset0 := dataset0 c @ [drowsinessLevel data],
                     dataset1 := dataset1 c @ [eyeBlinkRate data]\<rparr>
          in Inr (if length (labels c1) > 20
                  then c1\<lparr>labels := tl (labels c1), dataset0 := tl (dataset0 c1),
                           dataset1 := tl (dataset1 c1)\<rparr>
                  else c1)
      | _ \<Rightarrow> Inl TypeError)"

datatype outcome = Done | Rejected | Threw exn

text \<open>
  \<open>processSensorData\<close>, with the clock read of the statistics. An exception leaves the
  state as the steps before it made it.
\<close>

definition processSensorData :: "int \<Rightarrow> jsval \<Rightarrow> engine \<Rightarrow> outcome \<times> engine" where
  "processSensorData now raw s =
     (case validate raw of
        None \<Rightarrow> (Rejected, s)
      | Some data \<Rightarrow>
          let s1 = s\<lparr>sessionData := sessionData s @ [data]\<rparr>
          in (case updateDashboardDisplays data of
                Inl e \<Rightarrow> (Threw e, s1)
              | Inr u \<Rightarrow>
                  (case updateChart data (drowsinessChart s1) of
                     Inl e \<Rightarrow> (Threw e, s1)
                   | Inr c \<Rightarrow>
                       let s2 = s1\<lparr>drowsinessChart := c\<rparr>;
                           s3 = checkForAlerts data s2;
                           s4 = updateSessionStatistics now s3
                       in (Done, s4))))"

text \<open>
  The handler of the hub's \<open>ReceiveSensorData\<close> message. It turns the message's time
  into a Date before it calls \<open>processSensorData\<close>; \<open>raw\<close> is the message after that step.
\<close>

definition onReceiveSensorData :: "int \<Rightarrow> jsval \<Rightarrow> engine \<Rightarrow> outcome \<times> engine" where
  "onReceiveSensorData now raw s =
     (if isSessionActive s then processSensorData now raw s else (Done, s))"

subsection \<open>Starting and stopping a session\<close>

text \<open>
  \<open>startSession\<close>, with its reads of the clock (\<open>new Date()\<close>) and of
  \<open>performance.now()\<close>. The page elements it blanks are those of the model; the gauges of
  the latest reading and the state of the buttons are not part of the state.
\<close>

definition startSession :: "int \<Rightarrow> real \<Rightarrow> engine \<Rightarrow> engine" where
  "startSession now nowMs s =
     (let s1 = s\<lparr>isSessionActive := True, sessionStartTime := Some now,
                 sessionData := [], totalAlerts := 0\<rparr>;
          s2 = startSimulator nowMs s1;
          s3 = resetChart s2;
          s4 = s3\<lparr>dom_totalAlerts := 0, dom_sessionDuration := (0, 0, 0),
                  dom_avgBlinkRate := None, dom_peakDrowsiness := None\<rparr>
      in clearAlert s4)"

text \<open>
  \<open>stopSession\<close>. Its last call, \<open>renderRecentSessions\<close>, writes the history to the page
  and changes none of the variables.
\<close>

definition stopSession :: "int \<Rightarrow> bool \<Rightarrow> engine \<Rightarrow> engine" where
  "stopSession now writable s =
     (let s1 = s\<lparr>isSessionActive := False\<rparr>;
          s2 = stopSimulator s1
      in saveRecentSession now writable s2)"

subsection \<open>The simulator\<close>

text \<open>
  What one run of \<open>simulatorTick\<close> reads: the two clocks, the threshold slider as
  \<open>parseInt\<close> returns it, the clock read of the statistics, and one field for each call of
  \<open>Math.random\<close> in the function body. \<open>Math.random\<close> returns a number from 0 up to but
  not including 1.
\<close>

record tick =
  t_now :: int
  t_nowMs :: real
  t_threshold :: jsnum
  t_statsNow :: int
  r_spike :: real
  r_cooldown :: real
  r_axis :: real
  r_sign :: real
  r_magnitude :: real
  r_pitch :: real
  r_roll :: real
  r_yaw :: real
  r_baselineBlink :: real
  r_drowsiness :: real
  r_blinkExtra :: real
  r_tiltExtra :: real
  r_battery :: real

definition unit_interval :: "real \<Rightarrow> bool" where
  "unit_interval r = (0 \<le> r \<and> r < 1)"

text \<open>
  \<open>baseTilt[axis] = v\<close> where \<open>axis\<close> is the entry of \<open>['pitch','roll','yaw']\<close> at index \<open>i\<close>;
  an index outside the array names none of the three axes.
\<close>

definition setAxis :: "int \<Rightarrow> real \<Rightarrow> tilt \<Rightarrow> tilt" where
  "setAxis i v b =
     (if i = 0 then b\<lparr>pitch := v\<rparr>
      else if i = 1 then b\<lparr>roll := v\<rparr>
      else if i = 2 then b\<lparr>yaw := v\<rparr>
      else b)"

text \<open>The generator's state after the blink and tilt steps, and whether a blink fired.\<close>

definition blinkStep :: "tick \<Rightarrow> simstate \<Rightarrow> bool \<times> simstate" where
  "blinkStep t st =
     (if t_nowMs t - lastBlinkMs st \<ge> blinkIntervalMs st
      then (True, st\<lparr>lastBlinkMs := t_nowMs t\<rparr>)
      else (False, st))"

definition tiltStep :: "tick \<Rightarrow> simstate \<Rightarrow> simstate" where
  "tiltStep t st =
     (if tiltCooldown st = 0 \<and> r_spike t < 0.08 then
        st\<lparr>tiltCooldown := 2 + \<lfloor>r_cooldown t * 2\<rfloor>,
           baseTilt := setAxis \<lfloor>r_axis t * 3\<rfloor>
                         ((if r_sign t < 0.5 then 1 else - 1) * (30 + r_magnitude t * 20))
                         (baseTilt st)\<rparr>
      else if tiltCooldown st > 0 then
        (let st1 = st\<lparr>tiltCooldown := tiltCooldown st - 1\<rparr>
         in if tiltCooldown st1 = 0 then st1\<lparr>baseTilt := zeroTilt\<rparr> else st1)
      else st)"

definition clamp100 :: "real \<Rightarrow> real" where
  "clamp100 x = max 0 (min 100 x)"

definition simulatorTick :: "tick \<Rightarrow> engine \<Rightarrow> outcome \<times> engine" where
  "simulatorTick t s =
     (if \<not> isSessionActive s then (Done, s)
      else
        let (eyeClosedThisTick, st1) = blinkStep t (simulatorState s);
            st2 = tiltStep t st1;
            hm = \<lparr>pitch = pitch (baseTilt st2) + (r_pitch t - 0.5) * 4,
                  roll = roll (baseTilt st2) + (r_roll t - 0.5) * 4,
                  yaw = yaw (baseTilt st2) + (r_yaw t - 0.5) * 4\<rparr>;
            tiltExceeded = (max (max \<bar>pitch hm\<bar> \<bar>roll hm\<bar>) \<bar>yaw hm\<bar> > 30);
            baselineBlink = 15 + r_baselineBlink t * 6;
            eyeBlinkRate = (if eyeClosedThisTick then 20 else baselineBlink);
            d0 = 35 + r_drowsiness t * 15;
            d1 = (if eyeClosedThisTick then d0 + (20 + r_blinkExtra t * 10) else d0);
            d2 = (if tiltExceeded then d1 + (20 + r_tiltExtra t * 15) else d1);
            drowsinessLevel = clamp100 d2;
            st3 = st2\<lparr>sim_batteryLevel :=
                        max 5 (sim_batteryLevel st2 - (0.15 + r_battery t * 0.1))\<rparr>;
            alertTriggered = (js_ge (Fin drowsinessLevel) (t_threshold t) \<or> tiltExceeded);
            simulated = JObj
              [(''timestamp'', JDate (Some (t_now t))),
               (''eyeBlinkRate'', JNum (Fin eyeBlinkRate)),
               (''eyeClosureDuration'', JNum (Fin (if eyeClosedThisTick then 0.2 else 0.0))),
               (''headMovement'', JObj [(''pitch'', JNum (Fin (pitch hm))),
                                        (''roll'', JNum (Fin (roll hm))),
                                        (''yaw'', JNum (Fin (yaw hm)))]),
               (''drowsinessLevel'', JNum (Fin drowsinessLevel)),
               (''alertTriggered'', JBool alertTriggered),
               (''batteryLevel'', JNum (Fin (sim_batteryLevel st3)))]
        in processSensorData (t_statsNow t) simulated (s\<lparr>simulatorState := st3\<rparr>))"

text \<open>The states after a run of ticks, oldest tick first.\<close>

fun runTicks :: "tick list \<Rightarrow> engine \<Rightarrow> engine" where
  "runTicks [] s = s"
| "runTicks (t # ts) s = runTicks ts (snd (simulatorTick t s))"

subsection \<open>The lifecycle\<close>

text \<open>
  The states the page can be in: the script is read and the history is loaded, and then
  the handlers run in any order, the tick handler only while an interval timer is
  scheduled.
\<close>

inductive reachable :: "engine \<Rightarrow> bool" where
  loaded: "loadRecentSessions (initial sl) = Inr s \<Longrightarrow> reachable s"
| started: "reachable s \<Longrightarrow> reachable (startSession now nowMs s)"
| stopped: "reachable s \<Longrightarrow> reachable (stopSession now writable s)"
| ticked: "reachable s \<Longrightarrow> timers s \<noteq> [] \<Longrightarrow> reachable (snd (simulatorTick t s))"
| received: "reachable s \<Longrightarrow> reachable (snd (onReceiveSensorData now raw s))"

subsection \<open>Runs of readings\<close>

text \<open>The label \<open>updateChart\<close> pushes for a reading whose timestamp is a Date.\<close>

definition timeLabel :: "sample \<Rightarrow> int option" where
  "timeLabel d = (case timestamp d of JDate t \<Rightarrow> t | _ \<Rightarrow> None)"

text \<open>
  \<open>updateChart\<close> on each reading of a list in turn, oldest first; the first exception ends
  the run.
\<close>

fun pushAll :: "sample list \<Rightarrow> chart \<Rightarrow> exn + chart" where
  "pushAll [] c = Inr c"
| "pushAll (d # ds) c = (case updateChart d c of Inl e \<Rightarrow> Inl e | Inr c1 \<Rightarrow> pushAll ds c1)"

text \<open>The three arrays of the chart have one length, and it is at most 20.\<close>

definition window_ok :: "chart \<Rightarrow> bool" where
  "window_ok c = (length (labels c) \<le> 20 \<and> length (dataset0 c) = length (labels c)
                  \<and> length (dataset1 c) = length (labels c))"

text \<open>A well-formed reading, numbered by \<open>i\<close>, as the simulator produces every two seconds.\<close>

definition readingAt :: "int \<Rightarrow> sample" where
  "readingAt i =
     \<lparr>timestamp = JDate (Some (2000 * i)), eyeBlinkRate = Fin 17,
      eyeClosureDuration = JNum (Fin 0),
      headMovement = JObj [(''pitch'', JNum (Fin 1)), (''roll'', JNum (Fin 0)),
                           (''yaw'', JNum (Fin 0))],
      drowsinessLevel = Fin (real_of_int i), alertTriggered = JBool False,
      batteryLevel = JNum (Fin 90)\<rparr>"

subsection \<open>Readings used in the examples\<close>

text \<open>The acceptance test in the specification's words: a finite numeric value.\<close>

fun isFiniteNumber :: "jsval \<Rightarrow> bool" where
  "isFiniteNumber (JNum (Fin a)) = True"
| "isFiniteNumber v = False"

text \<open>
  A reading as the hub delivers it, with the blink rate, the drowsiness level and the
  alert flag left open.
\<close>

definition rawReading :: "jsnum \<Rightarrow> jsnum \<Rightarrow> jsval \<Rightarrow> jsval" where
  "rawReading blink drowsy alert =
     JObj [(''timestamp'', JDate (Some 2000)),
           (''eyeBlinkRate'', JNum blink),
           (''eyeClosureDuration'', JNum (Fin 0)),
           (''headMovement'', JObj [(''pitch'', JNum (Fin 1)), (''roll'', JNum (Fin 0)),
                                    (''yaw'', JNum (Fin 0))]),
           (''drowsinessLevel'', JNum drowsy),
           (''alertTriggered'', alert),
           (''batteryLevel'', JNum (Fin 90))]"

text \<open>A reading from a producer that sends no alert flag.\<close>

definition legacyReading :: jsval where
  "legacyReading =
     JObj [(''timestamp'', JDate (Some 2000)),
           (''eyeBlinkRate'', JNum (Fin 17)),
           (''headMovement'', JObj [(''pitch'', JNum (Fin 1)), (''roll'', JNum (Fin 0)),
                                    (''yaw'', JNum (Fin 0))]),
           (''drowsinessLevel'', JNum (Fin 90)),
           (''batteryLevel'', JNum (Fin 90))]"

text \<open>The two readings of the statistics example: blink rate 10 and 20, drowsiness 20 and 80.\<close>

definition statsExample :: "sample list" where
  "statsExample =
     [(readingAt 1)\<lparr>eyeBlinkRate := Fin 10, drowsinessLevel := Fin 20\<rparr>,
      (readingAt 2)\<lparr>eyeBlinkRate := Fin 20, drowsinessLevel := Fin 80\<rparr>]"

text \<open>
  A page whose stored history has ten entries, and on it a session started at time 0
  that has taken two readings, the second with the alert flag set.
\<close>

definition tenEntries :: "jsval list" where
  "tenEntries = map (\<lambda>i. JNum (Fin (real_of_int i))) [1..10]"

definition loadedPage :: engine where
  "loadedPage = (initial (Holds (JArr tenEntries)))\<lparr>recentSessions := tenEntries\<rparr>"

definition busySession :: engine where
  "busySession =
     snd (processSensorData 4000 (rawReading (Fin 20) (Fin 80) (JBool True))
       (snd (processSensorData 2000 (rawReading (Fin 10) (Fin 20) (JBool False))
          (startSession 0 0 loadedPage))))"

subsection \<open>The battery and the timer in a run\<close>

definition batteryOf :: "engine \<Rightarrow> real" where
  "batteryOf s = sim_batteryLevel (simulatorState s)"

text \<open>
  The timer the script remembers is the one timer that is scheduled, and the browser
  gave it a positive identifier.
\<close>

definition timer_inv :: "engine \<Rightarrow> bool" where
  "timer_inv s =
     (timers s = (case simulatorIntervalId s of None \<Rightarrow> [] | Some i \<Rightarrow> [i])
      \<and> simulatorIntervalId s \<noteq> Some 0 \<and> nextTimerId s \<noteq> 0)"

text \<open>A tick in which every call of \<open>Math.random\<close> returns \<open>r\<close>.\<close>

definition tickWith :: "real \<Rightarrow> real \<Rightarrow> tick" where
  "tickWith nowMs r =
     \<lparr>t_now = \<lfloor>nowMs\<rfloor>, t_nowMs = nowMs, t_threshold = Fin 70, t_statsNow = \<lfloor>nowMs\<rfloor>,
      r_spike = r, r_cooldown = r, r_axis = r, r_sign = r, r_magnitude = r, r_pitch = r,
      r_roll = r, r_yaw = r, r_baselineBlink = r, r_drowsiness = r, r_blinkExtra = r,
      r_tiltExtra = r, r_battery = r\<rparr>"

subsection \<open>Readings the display step accepts\<close>





section \<open>Properties\<close>

subsection \<open>Rounding to a double\<close>

lemma pow2_powr: "pow2 k = 2 powr (real_of_int k)"
  by (simp add: pow2_def powr_int)

lemma binade_normal:
  assumes "pow2 k \<le> a" and "a < pow2 (k + 1)" and "- 1022 \<le> k"
  shows "binade a = k"
proof -
  have "0 < pow2 k" by (simp add: pow2_def)
  with assms(1) have pos: "0 < a" by simp
  have "\<lfloor>log 2 a\<rfloor> = k"
    using assms(1,2) pos by (simp add: floor_log_eq_powr_iff pow2_powr)
  then show ?thesis using assms(3) by (simp add: binade_def)
qed

lemma toDouble_normal:
  assumes "pow2 k \<le> \<bar>x\<bar>" and "\<bar>x\<bar> < pow2 (k + 1)" and "- 1022 \<le> k"
  shows "toDouble x = roundIn k x"
proof -
  have "0 < pow2 k" by (simp add: pow2_def)
  with assms(1) have "x \<noteq> 0" by auto
  then show ?thesis by (simp add: toDouble_def binade_normal[OF assms])
qed

text \<open>
  Small integers are doubles, and so is the largest double; twice the largest double
  rounds to an infinity; one tenth and two tenths round to the doubles next to them, and
  the sum of those two doubles is rounded again.
\<close>

lemma exactDouble_examples:
  "exactDouble 0" "exactDouble 10" "exactDouble 15" "exactDouble 20" "exactDouble 30"
  "exactDouble maxDouble"
proof -
  show "exactDouble 0" by (simp add: exactDouble_def toDouble_def)
  show "exactDouble 10" "exactDouble 15"
    by (simp_all add: exactDouble_def toDouble_normal[of 3] roundIn_def pow2_def
        roundHalfEven_def Let_def)
  show "exactDouble 20" "exactDouble 30"
    by (simp_all add: exactDouble_def toDouble_normal[of 4] roundIn_def pow2_def
        roundHalfEven_def Let_def)
  show "exactDouble maxDouble"
    by (simp add: exactDouble_def toDouble_normal[of 1023] roundIn_def pow2_def
        roundHalfEven_def Let_def maxDouble_def)
qed


lemma toDouble_tenths:
  "toDouble (1 / 10) = Fin (3602879701896397 / 2 ^ 55)"
  "toDouble (2 / 10) = Fin (3602879701896397 / 2 ^ 54)"
  "js_add (Fin (3602879701896397 / 2 ^ 55)) (Fin (3602879701896397 / 2 ^ 54))
     = Fin (1351079888211149 / 2 ^ 52)"
  "toDouble (3 / 10) = Fin (5404319552844595 / 2 ^ 54)"
proof -
  show "toDouble (1 / 10) = Fin (3602879701896397 / 2 ^ 55)"
    by (simp add: toDouble_normal[of "- 4"] roundIn_def pow2_def roundHalfEven_def Let_def)
  show "toDouble (2 / 10) = Fin (3602879701896397 / 2 ^ 54)"
    by (simp add: toDouble_normal[of "- 3"] roundIn_def pow2_def roundHalfEven_def Let_def)
  show "js_add (Fin (3602879701896397 / 2 ^ 55)) (Fin (3602879701896397 / 2 ^ 54))
          = Fin (1351079888211149 / 2 ^ 52)"
    by (simp add: toDouble_normal[of "- 2"] roundIn_def pow2_def roundHalfEven_def Let_def)
  show "toDouble (3 / 10) = Fin (5404319552844595 / 2 ^ 54)"
    by (simp add: toDouble_normal[of "- 2"] roundIn_def pow2_def roundHalfEven_def Let_def)
qed

subsection \<open>The rolling window\<close>

lemma tl_as_drop: "tl xs = drop 1 xs"
  by (simp add: drop_Suc)

lemma push_shift:
  assumes "length xs \<le> 20"
  shows "(if length (xs @ [x]) > 20 then tl (xs @ [x]) else xs @ [x])
         = drop (length xs + 1 - 20) (xs @ [x])"
proof (cases "length xs = 20")
  case True
  then show ?thesis by (simp add: tl_as_drop)
next
  case False
  with assms have "length xs < 20" by simp
  then show ?thesis by simp
qed

lemma drop_window:
  assumes "length xs = n" and "n \<le> 20"
  shows "drop (min 20 (n + 1) + length ys - 20) (drop (n + 1 - 20) (xs @ [x]) @ ys)
         = drop (n + length (x # ys) - 20) (xs @ x # ys)"
proof (cases "n = 20")
  case True
  with assms(1) obtain a xs' where xs: "xs = a # xs'"
    by (cases xs) auto
  show ?thesis
    using True by (simp add: xs del: drop_append)
next
  case False
  with assms have "n < 20" by simp
  then have e: "min 20 (n + 1) = n + 1" "n + 1 - 20 = 0" by simp_all
  show ?thesis unfolding e by simp
qed

lemma updateChart_step:
  assumes "has_toLocaleTimeString (timestamp d)" and "window_ok c"
  shows "\<exists>c1. updateChart d c = Inr c1 \<and> window_ok c1
           \<and> labels c1 = drop (length (labels c) + 1 - 20) (labels c @ [timeLabel d])
           \<and> dataset0 c1 = drop (length (labels c) + 1 - 20) (dataset0 c @ [drowsinessLevel d])
           \<and> dataset1 c1 = drop (length (labels c) + 1 - 20) (dataset1 c @ [eyeBlinkRate d])"
proof -
  from assms(1) obtain t where t: "timestamp d = JDate t"
    by (cases "timestamp d") auto
  have w: "length (labels c) \<le> 20" "length (dataset0 c) = length (labels c)"
    "length (dataset1 c) = length (labels c)"
    using assms(2) by (simp_all add: window_ok_def)
  have p0: "(if length (labels c @ [t]) > 20 then tl (labels c @ [t]) else labels c @ [t])
            = drop (length (labels c) + 1 - 20) (labels c @ [t])"
    using push_shift[of "labels c" t] w by simp
  have p1: "(if length (dataset0 c @ [drowsinessLevel d]) > 20 then tl (dataset0 c @ [drowsinessLevel d])
             else dataset0 c @ [drowsinessLevel d])
            = drop (length (labels c) + 1 - 20) (dataset0 c @ [drowsinessLevel d])"
    using push_shift[of "dataset0 c" "drowsinessLevel d"] w by simp
  have p2: "(if length (dataset1 c @ [eyeBlinkRate d]) > 20 then tl (dataset1 c @ [eyeBlinkRate d])
             else dataset1 c @ [eyeBlinkRate d])
            = drop (length (labels c) + 1 - 20) (dataset1 c @ [eyeBlinkRate d])"
    using push_shift[of "dataset1 c" "eyeBlinkRate d"] w by simp
  show ?thesis
  proof (cases "length (labels c) = 20")
    case True
    then show ?thesis
      using w p0 p1 p2 by (simp add: updateChart_def t timeLabel_def window_ok_def Let_def)
  next
    case False
    with w have "length (labels c) < 20" by simp
    then show ?thesis
      using w by (simp add: updateChart_def t timeLabel_def window_ok_def Let_def)
  qed
qed

lemma pushAll_window:
  assumes "\<forall>d\<in>set ds. has_toLocaleTimeString (timestamp d)" and "window_ok c"
  shows "\<exists>c'. pushAll ds c = Inr c' \<and> window_ok c'
           \<and> labels c' = drop (length (labels c) + length ds - 20) (labels c @ map timeLabel ds)
           \<and> dataset0 c' = drop (length (labels c) + length ds - 20) (dataset0 c @ map drowsinessLevel ds)
           \<and> dataset1 c' = drop (length (labels c) + length ds - 20) (dataset1 c @ map eyeBlinkRate ds)"
  using assms
proof (induction ds arbitrary: c)
  case Nil
  then show ?case by (simp add: window_ok_def)
next
  case (Cons d ds)
  from Cons.prems obtain c1 where c1: "updateChart d c = Inr c1" "window_ok c1"
    "labels c1 = drop (length (labels c) + 1 - 20) (labels c @ [timeLabel d])"
    "dataset0 c1 = drop (length (labels c) + 1 - 20) (dataset0 c @ [drowsinessLevel d])"
    "dataset1 c1 = drop (length (labels c) + 1 - 20) (dataset1 c @ [eyeBlinkRate d])"
    using updateChart_step[of d c] by auto
  from Cons.prems have "\<forall>d\<in>set ds. has_toLocaleTimeString (timestamp d)" by simp
  from Cons.IH[OF this c1(2)] obtain c' where c': "pushAll ds c1 = Inr c'" "window_ok c'"
    "labels c' = drop (length (labels c1) + length ds - 20) (labels c1 @ map timeLabel ds)"
    "dataset0 c' = drop (length (labels c1) + length ds - 20) (dataset0 c1 @ map drowsinessLevel ds)"
    "dataset1 c' = drop (length (labels c1) + length ds - 20) (dataset1 c1 @ map eyeBlinkRate ds)"
    by blast
  have len: "length (labels c) \<le> 20" "length (dataset0 c) = length (labels c)"
    "length (dataset1 c) = length (labels c)"
    using Cons.prems(2) by (simp_all add: window_ok_def)
  have l1: "length (labels c1) = min 20 (length (labels c) + 1)"
    using len c1(3) by auto
  have step: "\<And>(xs::'a list) x ys zs. length xs = length (labels c) \<Longrightarrow>
      zs = drop (length (labels c1) + length ds - 20)
             (drop (length (labels c) + 1 - 20) (xs @ [x]) @ ys) \<Longrightarrow>
      length ys = length ds \<Longrightarrow>
      zs = drop (length (labels c) + length (d # ds) - 20) (xs @ x # ys)"
  proof -
    fix xs :: "'a list" and x ys zs
    assume a: "length xs = length (labels c)"
      and z: "zs = drop (length (labels c1) + length ds - 20)
                     (drop (length (labels c) + 1 - 20) (xs @ [x]) @ ys)"
      and l: "length ys = length ds"
    have "zs = drop (min 20 (length (labels c) + 1) + length ys - 20)
                 (drop (length (labels c) + 1 - 20) (xs @ [x]) @ ys)"
      by (simp only: z l1 l)
    also have "\<dots> = drop (length (labels c) + length (x # ys) - 20) (xs @ x # ys)"
      by (rule drop_window[OF a len(1)])
    finally show "zs = drop (length (labels c) + length (d # ds) - 20) (xs @ x # ys)"
      by (simp only: l list.size length_Cons)
  qed
  have "labels c' = drop (length (labels c) + length (d # ds) - 20) (labels c @ map timeLabel (d # ds))"
    using step[OF refl, of "labels c'" "timeLabel d" "map timeLabel ds"] c'(3) c1(3)
    by (simp del: drop_append)
  moreover have "dataset0 c' = drop (length (labels c) + length (d # ds) - 20)
                                 (dataset0 c @ map drowsinessLevel (d # ds))"
    using step[OF len(2), of "dataset0 c'" "drowsinessLevel d" "map drowsinessLevel ds"]
      c'(4) c1(4) by (simp del: drop_append)
  moreover have "dataset1 c' = drop (length (labels c) + length (d # ds) - 20)
                                 (dataset1 c @ map eyeBlinkRate (d # ds))"
    using step[OF len(3), of "dataset1 c'" "eyeBlinkRate d" "map eyeBlinkRate ds"]
      c'(5) c1(5) by (simp del: drop_append)
  ultimately show ?case
    using c1(1) c'(1,2) by simp
qed

text \<open>
  Claim C4. Readings with a Date timestamp are pushed one after the other into a chart
  whose arrays have one length of at most 20 (the empty chart of a new session is one).
  Every push returns, the arrays never grow beyond 20, and they hold the last 20 entries of
  what was there followed by what was pushed, oldest first. After 25 pushes they hold
  the projections of the last 20 readings pushed, in arrival order.
\<close>

theorem rolling_window_last_20:
  assumes "\<forall>d\<in>set ds. has_toLocaleTimeString (timestamp d)" and "window_ok c"
  shows "\<exists>c'. pushAll ds c = Inr c'
           \<and> length (labels c') \<le> 20 \<and> length (dataset0 c') \<le> 20 \<and> length (dataset1 c') \<le> 20
           \<and> labels c' = drop (length (labels c) + length ds - 20) (labels c @ map timeLabel ds)
           \<and> dataset0 c' = drop (length (labels c) + length ds - 20)
                              (dataset0 c @ map drowsinessLevel ds)
           \<and> dataset1 c' = drop (length (labels c) + length ds - 20)
                              (dataset1 c @ map eyeBlinkRate ds)
           \<and> (length ds = 25 \<longrightarrow>
                 labels c' = map timeLabel (drop 5 ds)
                 \<and> dataset0 c' = map drowsinessLevel (drop 5 ds)
                 \<and> dataset1 c' = map eyeBlinkRate (drop 5 ds))"
proof -
  from pushAll_window[OF assms] obtain c' where c': "pushAll ds c = Inr c'" "window_ok c'"
    "labels c' = drop (length (labels c) + length ds - 20) (labels c @ map timeLabel ds)"
    "dataset0 c' = drop (length (labels c) + length ds - 20) (dataset0 c @ map drowsinessLevel ds)"
    "dataset1 c' = drop (length (labels c) + length ds - 20) (dataset1 c @ map eyeBlinkRate ds)"
    by blast
  have len: "length (labels c) \<le> 20" "length (dataset0 c) = length (labels c)"
    "length (dataset1 c) = length (labels c)"
    using assms(2) by (simp_all add: window_ok_def)
  have last20: "length ds = 25 \<Longrightarrow> length xs = length (labels c) \<Longrightarrow>
      drop (length (labels c) + length ds - 20) (xs @ map f ds) = map f (drop 5 ds)"
    for xs :: "'a list" and f
    by (simp add: drop_map)
  have "length ds = 25 \<longrightarrow>
          labels c' = map timeLabel (drop 5 ds)
          \<and> dataset0 c' = map drowsinessLevel (drop 5 ds)
          \<and> dataset1 c' = map eyeBlinkRate (drop 5 ds)"
    using c'(3,4,5) last20[of "labels c" timeLabel] last20[of "dataset0 c" drowsinessLevel]
      last20[of "dataset1 c" eyeBlinkRate] len
    by (simp del: drop_append)
  moreover have "length (labels c') \<le> 20 \<and> length (dataset0 c') \<le> 20 \<and> length (dataset1 c') \<le> 20"
    using c'(2) by (simp add: window_ok_def)
  ultimately show ?thesis
    using c'(1,3,4,5) by blast
qed

theorem rolling_window_last_20_witness:
  "\<exists>c'. pushAll (map readingAt [1..25]) emptyChart = Inr c'
        \<and> labels c' = map (\<lambda>i. Some (2000 * i)) [6..25]
        \<and> dataset0 c' = map (\<lambda>i. Fin (real_of_int i)) [6..25]
        \<and> length (dataset1 c') = 20"
proof -
  have h1: "\<forall>d\<in>set (map readingAt [1..25]). has_toLocaleTimeString (timestamp d)"
    by (simp add: readingAt_def)
  have h2: "window_ok emptyChart"
    by (simp add: window_ok_def emptyChart_def)
  have d: "drop 5 (map readingAt [1..25]) = map readingAt [6..25]"
    by (simp add: upto.simps)
  have t: "map timeLabel (map readingAt [6..25]) = map (\<lambda>i. Some (2000 * i)) [6..25]"
    by (simp add: timeLabel_def readingAt_def)
  have v: "map drowsinessLevel (map readingAt [6..25]) = map (\<lambda>i. Fin (real_of_int i)) [6..25]"
    by (simp add: readingAt_def)
  from rolling_window_last_20[OF h1 h2] obtain c' where
    c': "pushAll (map readingAt [1..25]) emptyChart = Inr c'"
    "length (dataset1 c') \<le> 20"
    "length (map readingAt [1..25]) = 25 \<longrightarrow>
       labels c' = map timeLabel (drop 5 (map readingAt [1..25]))
       \<and> dataset0 c' = map drowsinessLevel (drop 5 (map readingAt [1..25]))
       \<and> dataset1 c' = map eyeBlinkRate (drop 5 (map readingAt [1..25]))"
    by blast
  have l: "length (map readingAt [1..25]) = 25" by simp
  from c'(3) l have e: "labels c' = map timeLabel (drop 5 (map readingAt [1..25]))"
    "dataset0 c' = map drowsinessLevel (drop 5 (map readingAt [1..25]))"
    "dataset1 c' = map eyeBlinkRate (drop 5 (map readingAt [1..25]))" by blast+
  have "length (dataset1 c') = 20" unfolding e(3) d by simp
  with c'(1) e(1,2) d t v show ?thesis by simp
qed

subsection \<open>The guard of the ingest path\<close>

lemma typeof_number: "(typeof v = ''number'') = (\<exists>x. v = JNum x)"
  by (cases v) auto

lemma validate_Some:
  assumes "truthy raw" and "truthy (getProp raw ''headMovement'')"
    and "getProp raw ''eyeBlinkRate'' = JNum b" and "getProp raw ''drowsinessLevel'' = JNum d"
  shows "validate raw =
           Some \<lparr>timestamp = getProp raw ''timestamp'', eyeBlinkRate = b,
                 eyeClosureDuration = getProp raw ''eyeClosureDuration'',
                 headMovement = getProp raw ''headMovement'', drowsinessLevel = d,
                 alertTriggered = getProp raw ''alertTriggered'',
                 batteryLevel = getProp raw ''batteryLevel''\<rparr>"
  using assms by (simp add: validate_def)

lemma validate_None:
  assumes "\<not> (truthy raw \<and> truthy (getProp raw ''headMovement'')
              \<and> (\<exists>b. getProp raw ''eyeBlinkRate'' = JNum b)
              \<and> (\<exists>d. getProp raw ''drowsinessLevel'' = JNum d))"
  shows "validate raw = None"
  using assms by (auto simp: validate_def typeof_number)

lemma processSensorData_sessionData:
  "validate raw = Some data \<Longrightarrow>
   sessionData (snd (processSensorData now raw s)) = sessionData s @ [data]"
  by (simp add: processSensorData_def Let_def checkForAlerts_def triggerAlert_def clearAlert_def
      updateSessionStatistics_def split: sum.splits)

text \<open>
  Claim C1, as the code has it. \<open>processSensorData\<close> appends the reading to \<open>sessionData\<close>
  exactly when the raw value is truthy, its \<open>headMovement\<close> is truthy, and its
  \<open>eyeBlinkRate\<close> and \<open>drowsinessLevel\<close> are of type number, \<open>NaN\<close> and the two infinities
  included. Every other input is rejected, and the state after a rejection is the state
  before it, in every component.
\<close>

theorem ingest_guard:
  "(truthy raw \<and> truthy (getProp raw ''headMovement'')
      \<and> getProp raw ''eyeBlinkRate'' = JNum b \<and> getProp raw ''drowsinessLevel'' = JNum d
    \<longrightarrow> sessionData (snd (processSensorData now raw s)) =
          sessionData s @
            [\<lparr>timestamp = getProp raw ''timestamp'', eyeBlinkRate = b,
              eyeClosureDuration = getProp raw ''eyeClosureDuration'',
              headMovement = getProp raw ''headMovement'', drowsinessLevel = d,
              alertTriggered = getProp raw ''alertTriggered'',
              batteryLevel = getProp raw ''batteryLevel''\<rparr>])
   \<and> (\<not> (truthy raw \<and> truthy (getProp raw ''headMovement'')
           \<and> (\<exists>x. getProp raw ''eyeBlinkRate'' = JNum x)
           \<and> (\<exists>y. getProp raw ''drowsinessLevel'' = JNum y))
      \<longrightarrow> processSensorData now raw s = (Rejected, s))"
proof (intro conjI impI)
  assume a: "truthy raw \<and> truthy (getProp raw ''headMovement'')
      \<and> getProp raw ''eyeBlinkRate'' = JNum b \<and> getProp raw ''drowsinessLevel'' = JNum d"
  then have "validate raw =
           Some \<lparr>timestamp = getProp raw ''timestamp'', eyeBlinkRate = b,
                 eyeClosureDuration = getProp raw ''eyeClosureDuration'',
                 headMovement = getProp raw ''headMovement'', drowsinessLevel = d,
                 alertTriggered = getProp raw ''alertTriggered'',
                 batteryLevel = getProp raw ''batteryLevel''\<rparr>"
    by (intro validate_Some) simp_all
  then show "sessionData (snd (processSensorData now raw s)) =
          sessionData s @
            [\<lparr>timestamp = getProp raw ''timestamp'', eyeBlinkRate = b,
              eyeClosureDuration = getProp raw ''eyeClosureDuration'',
              headMovement = getProp raw ''headMovement'', drowsinessLevel = d,
              alertTriggered = getProp raw ''alertTriggered'',
              batteryLevel = getProp raw ''batteryLevel''\<rparr>]"
    by (rule processSensorData_sessionData)
next
  assume "\<not> (truthy raw \<and> truthy (getProp raw ''headMovement'')
           \<and> (\<exists>x. getProp raw ''eyeBlinkRate'' = JNum x)
           \<and> (\<exists>y. getProp raw ''drowsinessLevel'' = JNum y))"
  then have "validate raw = None" by (rule validate_None)
  then show "processSensorData now raw s = (Rejected, s)"
    by (simp add: processSensorData_def)
qed

lemma getProp_rawReading:
  "getProp (rawReading b d a) ''timestamp'' = JDate (Some 2000)"
  "getProp (rawReading b d a) ''eyeBlinkRate'' = JNum b"
  "getProp (rawReading b d a) ''eyeClosureDuration'' = JNum (Fin 0)"
  "getProp (rawReading b d a) ''headMovement'' =
     JObj [(''pitch'', JNum (Fin 1)), (''roll'', JNum (Fin 0)), (''yaw'', JNum (Fin 0))]"
  "getProp (rawReading b d a) ''drowsinessLevel'' = JNum d"
  "getProp (rawReading b d a) ''alertTriggered'' = a"
  "getProp (rawReading b d a) ''batteryLevel'' = JNum (Fin 90)"
  "truthy (rawReading b d a)"
  by (simp_all add: rawReading_def)

theorem ingest_guard_witness:
  "sessionData (snd (processSensorData 0 (rawReading NaN PosInf (JBool False)) (initial Absent))) =
     [\<lparr>timestamp = JDate (Some 2000), eyeBlinkRate = NaN, eyeClosureDuration = JNum (Fin 0),
       headMovement = JObj [(''pitch'', JNum (Fin 1)), (''roll'', JNum (Fin 0)),
                            (''yaw'', JNum (Fin 0))],
       drowsinessLevel = PosInf, alertTriggered = JBool False,
       batteryLevel = JNum (Fin 90)\<rparr>]
   \<and> processSensorData 0 (JObj [(''eyeBlinkRate'', JNum (Fin 17))]) (initial Absent)
       = (Rejected, initial Absent)"
proof -
  have i: "sessionData (initial Absent) = []" by (simp add: initial_def)
  have "sessionData (snd (processSensorData 0 (rawReading NaN PosInf (JBool False)) (initial Absent))) =
     sessionData (initial Absent) @ [\<lparr>timestamp = JDate (Some 2000), eyeBlinkRate = NaN, eyeClosureDuration = JNum (Fin 0),
       headMovement = JObj [(''pitch'', JNum (Fin 1)), (''roll'', JNum (Fin 0)),
                            (''yaw'', JNum (Fin 0))],
       drowsinessLevel = PosInf, alertTriggered = JBool False,
       batteryLevel = JNum (Fin 90)\<rparr>]"
    using ingest_guard[of "rawReading NaN PosInf (JBool False)" NaN PosInf 0 "initial Absent"]
    by (simp add: getProp_rawReading)
  moreover have "processSensorData 0 (JObj [(''eyeBlinkRate'', JNum (Fin 17))]) (initial Absent)
       = (Rejected, initial Absent)"
    using ingest_guard[of "JObj [(''eyeBlinkRate'', JNum (Fin 17))]" NaN NaN 0 "initial Absent"]
    by simp
  ultimately show ?thesis by (simp add: i)
qed

text \<open>
  The claim asks for finite numbers. A reading whose blink rate is \<open>NaN\<close> is appended all
  the same: the guard compares \<open>typeof\<close> with \<open>'number'\<close>, which \<open>NaN\<close> passes.
\<close>

theorem ingest_guard_counterexample:
  "sessionData (snd (processSensorData 0 (rawReading NaN (Fin 50) (JBool False)) (initial Absent)))
     \<noteq> sessionData (initial Absent)
   \<and> \<not> isFiniteNumber (getProp (rawReading NaN (Fin 50) (JBool False)) ''eyeBlinkRate'')"
proof -
  have "validate (rawReading NaN (Fin 50) (JBool False)) \<noteq> None"
    by (simp add: validate_Some getProp_rawReading)
  then obtain data where "validate (rawReading NaN (Fin 50) (JBool False)) = Some data"
    by blast
  from processSensorData_sessionData[OF this]
  show ?thesis by (simp add: getProp_rawReading)
qed

subsection \<open>Alerts\<close>


lemma processSensorData_Done_totalAlerts:
  assumes "validate raw = Some data" and "fst (processSensorData now raw s) = Done"
  shows "totalAlerts (snd (processSensorData now raw s))
         = totalAlerts s + (if truthy (alertTriggered data) then 1 else 0)"
  using assms
  by (auto simp: processSensorData_def Let_def checkForAlerts_def triggerAlert_def clearAlert_def
      updateSessionStatistics_def split: sum.splits)

lemma processSensorData_Done_iff:
  assumes "validate raw = Some data"
  shows "(fst (processSensorData now raw s) = Done)
         = (updateDashboardDisplays data = Inr ())"
proof (cases "updateDashboardDisplays data")
  case (Inl e)
  then show ?thesis
    using assms by (simp add: processSensorData_def Let_def)
next
  case (Inr u)
  then obtain t where "timestamp data = JDate t"
    by (cases "timestamp data") (auto simp: updateDashboardDisplays_def split: if_splits)
  then show ?thesis
    using assms Inr by (simp add: processSensorData_def Let_def updateChart_def)
qed




lemma validate_rawReading:
  "validate (rawReading b d a) =
     Some \<lparr>timestamp = JDate (Some 2000), eyeBlinkRate = b, eyeClosureDuration = JNum (Fin 0),
           headMovement = JObj [(''pitch'', JNum (Fin 1)), (''roll'', JNum (Fin 0)),
                                (''yaw'', JNum (Fin 0))],
           drowsinessLevel = d, alertTriggered = a, batteryLevel = JNum (Fin 90)\<rparr>"
  by (simp add: validate_Some getProp_rawReading)

lemma processSensorData_rawReading_Done:
  "fst (processSensorData now (rawReading b d a) s) = Done"
  by (simp add: processSensorData_Done_iff[OF validate_rawReading] updateDashboardDisplays_def)





text \<open>
  Claim C6, as the code has it. A reading without \<open>alertTriggered\<close> has the flag
  \<open>undefined\<close>, which is falsy: \<open>checkForAlerts\<close> clears the alert and leaves the counter,
  whatever the drowsiness level. No threshold is compared.
\<close>

theorem absent_flag_clears_alert:
  assumes "validate raw = Some data" and "getProp raw ''alertTriggered'' = JUndefined"
  shows "dom_alertStatus (checkForAlerts data s) = Clear
         \<and> totalAlerts (checkForAlerts data s) = totalAlerts s"
proof -
  from assms have "alertTriggered data = JUndefined"
    by (auto simp: validate_def split: if_splits jsval.splits)
  then show ?thesis
    by (simp add: checkForAlerts_def clearAlert_def)
qed

lemma validate_legacyReading:
  "validate legacyReading =
     Some \<lparr>timestamp = JDate (Some 2000), eyeBlinkRate = Fin 17, eyeClosureDuration = JUndefined,
           headMovement = JObj [(''pitch'', JNum (Fin 1)), (''roll'', JNum (Fin 0)),
                                (''yaw'', JNum (Fin 0))],
           drowsinessLevel = Fin 90, alertTriggered = JUndefined,
           batteryLevel = JNum (Fin 90)\<rparr>"
  by (simp add: validate_def legacyReading_def)

theorem absent_flag_clears_alert_witness:
  "dom_alertStatus (checkForAlerts
       \<lparr>timestamp = JDate (Some 2000), eyeBlinkRate = Fin 17, eyeClosureDuration = JUndefined,
        headMovement = JObj [(''pitch'', JNum (Fin 1)), (''roll'', JNum (Fin 0)),
                             (''yaw'', JNum (Fin 0))],
        drowsinessLevel = Fin 90, alertTriggered = JUndefined,
        batteryLevel = JNum (Fin 90)\<rparr> ((initial Absent)\<lparr>dom_alertStatus := Active\<rparr>)) = Clear"
proof -
  have "getProp legacyReading ''alertTriggered'' = JUndefined"
    by (simp add: legacyReading_def)
  from absent_flag_clears_alert[OF validate_legacyReading this]
  show ?thesis by simp
qed

text \<open>
  The claim has the alert Active whenever the drowsiness level is at or above the
  threshold. The reading without a flag has level 90, above a threshold of 70, and is
  processed to the end; the alert is Clear and nothing is counted.
\<close>

theorem absent_flag_counterexample:
  "processSensorData 0 legacyReading (initial Absent) =
     (Done, snd (processSensorData 0 legacyReading (initial Absent)))
   \<and> dom_alertStatus (snd (processSensorData 0 legacyReading (initial Absent))) = Clear
   \<and> totalAlerts (snd (processSensorData 0 legacyReading (initial Absent))) = 0
   \<and> getProp legacyReading ''drowsinessLevel'' = JNum (Fin 90)
   \<and> js_ge (Fin 90) (Fin 70)"
proof -
  have "processSensorData 0 legacyReading (initial Absent) =
          (Done, snd (processSensorData 0 legacyReading (initial Absent)))
        \<and> dom_alertStatus (snd (processSensorData 0 legacyReading (initial Absent))) = Clear
        \<and> totalAlerts (snd (processSensorData 0 legacyReading (initial Absent))) = 0"
    by (simp add: processSensorData_def validate_legacyReading updateDashboardDisplays_def
        updateChart_def Let_def checkForAlerts_def clearAlert_def updateSessionStatistics_def
        initial_def)
  moreover have "getProp legacyReading ''drowsinessLevel'' = JNum (Fin 90)"
    by (simp add: legacyReading_def)
  ultimately show ?thesis by simp
qed

subsection \<open>Session statistics\<close>






subsection \<open>Loading the history\<close>

text \<open>
  Claim C9. Whatever the storage slot holds, \<open>loadRecentSessions\<close> returns and no
  exception leaves it. The history it sets is the array in the slot when the slot parses
  to an array, and empty when the slot cannot be read, is absent or empty, does not parse
  or parses to something that is not an array. Nothing but the history changes.
\<close>

theorem load_never_throws:
  "loadRecentSessions s =
     Inr (s\<lparr>recentSessions :=
              (case localStorage s of Holds (JArr xs) \<Rightarrow> xs | _ \<Rightarrow> [])\<rparr>)"
  by (simp add: loadRecentSessions_def loadRecentSessions_try_def
      split: slot.splits jsval.splits)

theorem load_never_throws_witness:
  "loadRecentSessions (initial (Holds (JArr [JNull, JStr ''x''])))
     = Inr ((initial (Holds (JArr [JNull, JStr ''x''])))\<lparr>recentSessions := [JNull, JStr ''x'']\<rparr>)
   \<and> loadRecentSessions (initial (Holds (JStr ''[]''))) = Inr (initial (Holds (JStr ''[]'')))
   \<and> loadRecentSessions (initial Unparseable) = Inr (initial Unparseable)
   \<and> loadRecentSessions (initial Unreadable) = Inr (initial Unreadable)
   \<and> loadRecentSessions (initial Absent) = Inr (initial Absent)"
  using load_never_throws[of "initial (Holds (JArr [JNull, JStr ''x'']))"]
    load_never_throws[of "initial (Holds (JStr ''[]''))"]
    load_never_throws[of "initial Unparseable"] load_never_throws[of "initial Unreadable"]
    load_never_throws[of "initial Absent"]
  by (simp add: initial_def)

subsection \<open>What the handlers leave alone\<close>

text \<open>
  Which variables each handler keeps, and what \<open>stopSession\<close> does to the history in the
  two cases of \<open>saveRecentSession\<close>.
\<close>

lemma summary_cong:
  "sessionData s' = sessionData s \<Longrightarrow> totalAlerts s' = totalAlerts s \<Longrightarrow>
   summary t0 endTime s' = summary t0 endTime s"
  by (simp add: summary_def)

lemma stopSimulator_fields:
  "sessionData (stopSimulator s) = sessionData s"
  "totalAlerts (stopSimulator s) = totalAlerts s"
  "sessionStartTime (stopSimulator s) = sessionStartTime s"
  "recentSessions (stopSimulator s) = recentSessions s"
  "isSessionActive (stopSimulator s) = isSessionActive s"
  by (simp_all add: stopSimulator_def split: option.splits)

lemma saveRecentSession_fields:
  "sessionData (saveRecentSession now w s) = sessionData s"
  "totalAlerts (saveRecentSession now w s) = totalAlerts s"
  "sessionStartTime (saveRecentSession now w s) = sessionStartTime s"
  "isSessionActive (saveRecentSession now w s) = isSessionActive s"
  "simulatorIntervalId (saveRecentSession now w s) = simulatorIntervalId s"
  "timers (saveRecentSession now w s) = timers s"
  by (simp_all add: saveRecentSession_def Let_def split: option.splits)

lemma stopSession_fields:
  "sessionData (stopSession now w s) = sessionData s"
  "totalAlerts (stopSession now w s) = totalAlerts s"
  "sessionStartTime (stopSession now w s) = sessionStartTime s"
  "isSessionActive (stopSession now w s) = False"
  by (simp_all add: stopSession_def Let_def saveRecentSession_fields stopSimulator_fields)

lemma stopSession_history_empty:
  "sessionData s = [] \<or> sessionStartTime s = None \<Longrightarrow>
   recentSessions (stopSession now w s) = recentSessions s"
  by (auto simp: stopSession_def Let_def saveRecentSession_def stopSimulator_fields
      split: option.splits)

lemma stopSession_history:
  assumes "sessionData s \<noteq> []" and "sessionStartTime s = Some t0"
  shows "recentSessions (stopSession now w s) = take 10 (summary t0 now s # recentSessions s)"
proof -
  let ?s2 = "stopSimulator (s\<lparr>isSessionActive := False\<rparr>)"
  have "summary t0 now ?s2 = summary t0 now s"
    by (rule summary_cong) (simp_all add: stopSimulator_fields)
  then show ?thesis
    using assms
    by (simp add: stopSession_def Let_def saveRecentSession_def stopSimulator_fields)
qed

lemma processSensorData_frame:
  "isSessionActive (snd (processSensorData now raw s)) = isSessionActive s"
  "sessionStartTime (snd (processSensorData now raw s)) = sessionStartTime s"
  "simulatorIntervalId (snd (processSensorData now raw s)) = simulatorIntervalId s"
  "simulatorState (snd (processSensorData now raw s)) = simulatorState s"
  "recentSessions (snd (processSensorData now raw s)) = recentSessions s"
  "timers (snd (processSensorData now raw s)) = timers s"
  "nextTimerId (snd (processSensorData now raw s)) = nextTimerId s"
  "localStorage (snd (processSensorData now raw s)) = localStorage s"
  by (simp_all add: processSensorData_def Let_def checkForAlerts_def triggerAlert_def
      clearAlert_def updateSessionStatistics_def split: option.splits sum.splits)

lemma startSession_fields:
  "isSessionActive (startSession now nowMs s) = True"
  "sessionStartTime (startSession now nowMs s) = Some now"
  "sessionData (startSession now nowMs s) = []"
  "totalAlerts (startSession now nowMs s) = 0"
  "recentSessions (startSession now nowMs s) = recentSessions s"
  "drowsinessChart (startSession now nowMs s) = emptyChart"
  "localStorage (startSession now nowMs s) = localStorage s"
  by (simp_all add: startSession_def Let_def startSimulator_def resetChart_def clearAlert_def)

lemma loadRecentSessions_result:
  "loadRecentSessions s = Inr s' \<Longrightarrow> \<exists>rs. s' = s\<lparr>recentSessions := rs\<rparr>"
  by (auto simp: loadRecentSessions_def loadRecentSessions_try_def
      split: slot.splits jsval.splits)

lemma simulatorTick_timer:
  "timers (snd (simulatorTick t s)) = timers s"
  "simulatorIntervalId (snd (simulatorTick t s)) = simulatorIntervalId s"
  "nextTimerId (snd (simulatorTick t s)) = nextTimerId s"
  "isSessionActive (snd (simulatorTick t s)) = isSessionActive s"
  by (simp_all add: simulatorTick_def Let_def processSensorData_frame split: prod.splits)

lemma simulatorTick_idle: "\<not> isSessionActive s \<Longrightarrow> simulatorTick t s = (Done, s)"
  by (simp add: simulatorTick_def)

subsection \<open>The lifecycle\<close>

text \<open>
  Two facts about every state the page can reach: the timer invariant holds, and a
  session that is active or has readings has a start time. The example states are among
  the reachable ones.
\<close>

lemma timer_inv_initial: "timer_inv ((initial sl)\<lparr>recentSessions := rs\<rparr>)"
  by (simp add: timer_inv_def initial_def)

lemma timer_inv_startSession: "timer_inv s \<Longrightarrow> timer_inv (startSession now nowMs s)"
  by (auto simp: timer_inv_def startSession_def startSimulator_def resetChart_def clearAlert_def
      Let_def split: option.splits)

lemma timer_inv_stopSession: "timer_inv s \<Longrightarrow> timer_inv (stopSession now w s)"
  by (auto simp: timer_inv_def stopSession_def stopSimulator_def saveRecentSession_def Let_def
      split: option.splits)

lemma timer_inv_processSensorData: "timer_inv s \<Longrightarrow> timer_inv (snd (processSensorData now raw s))"
  by (simp add: timer_inv_def processSensorData_frame)

lemma timer_inv_simulatorTick: "timer_inv s \<Longrightarrow> timer_inv (snd (simulatorTick t s))"
  by (simp add: timer_inv_def simulatorTick_timer)

lemma reachable_timer_inv: "reachable s \<Longrightarrow> timer_inv s"
proof (induction rule: reachable.induct)
  case (loaded sl s)
  then show ?case
    using loadRecentSessions_result[of "initial sl" s] timer_inv_initial by auto
next
  case (started s now nowMs)
  then show ?case by (simp add: timer_inv_startSession)
next
  case (stopped s now writable)
  then show ?case by (simp add: timer_inv_stopSession)
next
  case (ticked s t)
  then show ?case by (simp add: timer_inv_simulatorTick)
next
  case (received s now raw)
  then show ?case by (simp add: onReceiveSensorData_def timer_inv_processSensorData)
qed

lemma simulatorTick_sessionStartTime:
  "sessionStartTime (snd (simulatorTick t s)) = sessionStartTime s"
  by (simp add: simulatorTick_def Let_def processSensorData_frame split: prod.splits)

lemma reachable_started:
  "reachable s \<Longrightarrow> isSessionActive s \<or> sessionData s \<noteq> [] \<Longrightarrow> sessionStartTime s \<noteq> None"
proof (induction rule: reachable.induct)
  case (loaded sl s)
  then show ?case
    using loadRecentSessions_result[of "initial sl" s] by (auto simp: initial_def)
next
  case (started s now nowMs)
  then show ?case by (simp add: startSession_fields)
next
  case (stopped s now writable)
  then show ?case by (simp add: stopSession_fields)
next
  case (ticked s t)
  show ?case
  proof (cases "isSessionActive s")
    case True
    with ticked.IH show ?thesis by (simp add: simulatorTick_sessionStartTime)
  next
    case False
    with ticked show ?thesis by (simp add: simulatorTick_idle)
  qed
next
  case (received s now raw)
  show ?case
  proof (cases "isSessionActive s")
    case True
    with received.IH show ?thesis
      by (simp add: onReceiveSensorData_def processSensorData_frame)
  next
    case False
    with received show ?thesis by (simp add: onReceiveSensorData_def)
  qed
qed

lemma reachable_loadedPage: "reachable loadedPage"
proof -
  have "loadRecentSessions (initial (Holds (JArr tenEntries))) = Inr loadedPage"
    by (simp add: loadRecentSessions_def loadRecentSessions_try_def loadedPage_def initial_def)
  then show ?thesis by (rule reachable.loaded)
qed

lemma busySession_fields:
  "sessionStartTime busySession = Some 0"
  "recentSessions busySession = tenEntries"
  "totalAlerts busySession = 1"
  "map eyeBlinkRate (sessionData busySession) = [Fin 10, Fin 20]"
  "map drowsinessLevel (sessionData busySession) = [Fin 20, Fin 80]"
  "length (sessionData busySession) = 2"
proof -
  show "sessionStartTime busySession = Some 0"
    by (simp add: busySession_def processSensorData_frame startSession_fields)
  show "recentSessions busySession = tenEntries"
    by (simp add: busySession_def processSensorData_frame startSession_fields loadedPage_def)
  show "totalAlerts busySession = 1"
    by (simp add: busySession_def processSensorData_Done_totalAlerts[OF validate_rawReading]
        processSensorData_rawReading_Done startSession_fields)
  have d: "sessionData busySession = [the (validate (rawReading (Fin 10) (Fin 20) (JBool False))),
                                      the (validate (rawReading (Fin 20) (Fin 80) (JBool True)))]"
    by (simp add: busySession_def processSensorData_sessionData[OF validate_rawReading]
        startSession_fields validate_rawReading)
  show "map eyeBlinkRate (sessionData busySession) = [Fin 10, Fin 20]"
    "map drowsinessLevel (sessionData busySession) = [Fin 20, Fin 80]"
    "length (sessionData busySession) = 2"
    by (simp_all add: d validate_rawReading)
qed

lemma summary_busySession:
  "summary 0 endTime busySession =
     JObj [(''start'', JDate (Some 0)), (''end'', JDate (Some endTime)),
           (''durationMs'', JNum (Fin (real_of_int endTime))), (''totalAlerts'', JNum (Fin 1)),
           (''avgBlinkRate'', JNum (Fin 15)), (''peakDrowsiness'', JNum (Fin 80)),
           (''points'', JNum (Fin 2))]"
proof -
  have e: "toDouble 10 = Fin 10" "toDouble 30 = Fin 30" "toDouble 15 = Fin 15"
    using exactDouble_examples by (simp_all add: exactDouble_def)
  show ?thesis
    by (simp add: summary_def busySession_fields Math_max_def Let_def e)
qed

lemma reachable_busySession: "reachable busySession"
proof -
  have s: "reachable (startSession 0 0 loadedPage)"
    by (rule reachable.started[OF reachable_loadedPage])
  have a: "isSessionActive (startSession 0 0 loadedPage)"
    by (simp add: startSession_fields)
  have r1: "reachable (snd (onReceiveSensorData 2000 (rawReading (Fin 10) (Fin 20) (JBool False))
                              (startSession 0 0 loadedPage)))"
    by (rule reachable.received[OF s])
  let ?s1 = "snd (processSensorData 2000 (rawReading (Fin 10) (Fin 20) (JBool False))
                    (startSession 0 0 loadedPage))"
  from r1 a have r1': "reachable ?s1" by (simp add: onReceiveSensorData_def)
  have a1: "isSessionActive ?s1" using a by (simp add: processSensorData_frame)
  have "reachable (snd (onReceiveSensorData 4000 (rawReading (Fin 20) (Fin 80) (JBool True)) ?s1))"
    by (rule reachable.received[OF r1'])
  with a1 show ?thesis by (simp add: onReceiveSensorData_def busySession_def)
qed

subsection \<open>The statistics on the page\<close>







subsection \<open>Readings that are stored and not counted\<close>


subsection \<open>The simulator's timer\<close>

text \<open>
  Claim C10. In every state the page can reach at most one interval timer is scheduled.
  \<open>stopSession\<close> leaves none scheduled, and \<open>startSession\<close> in a state where one is
  scheduled schedules no other.
\<close>

theorem at_most_one_timer:
  assumes "reachable s"
  shows "length (timers s) \<le> 1
         \<and> timers (stopSession now w s) = []
         \<and> length (timers (startSession now' nowMs s)) = 1
         \<and> (timers s \<noteq> [] \<longrightarrow> timers (startSession now' nowMs s) = timers s)"
proof -
  from assms have i: "timer_inv s" by (rule reachable_timer_inv)
  have 1: "length (timers s) \<le> 1"
    using i by (simp add: timer_inv_def split: option.splits)
  have 2: "timers (stopSession now w s) = []"
    using i by (auto simp: timer_inv_def stopSession_def stopSimulator_def
        saveRecentSession_fields Let_def split: option.splits)
  have 3: "length (timers (startSession now' nowMs s)) = 1"
    using i by (auto simp: timer_inv_def startSession_def startSimulator_def resetChart_def
        clearAlert_def Let_def split: option.splits)
  have 4: "timers s \<noteq> [] \<longrightarrow> timers (startSession now' nowMs s) = timers s"
    using i by (auto simp: timer_inv_def startSession_def startSimulator_def resetChart_def
        clearAlert_def Let_def split: option.splits)
  from 1 2 3 4 show ?thesis by simp
qed

theorem at_most_one_timer_witness:
  "reachable busySession
   \<and> timers busySession = [1]
   \<and> timers (stopSession 9000 True busySession) = []
   \<and> timers (startSession 9000 9000 busySession) = [1]"
proof -
  have t: "timers busySession = [1]"
    by (simp add: busySession_def processSensorData_frame startSession_def startSimulator_def
        resetChart_def clearAlert_def Let_def loadedPage_def initial_def)
  from at_most_one_timer[OF reachable_busySession, of 9000 True 9000 9000] t reachable_busySession
  show ?thesis by simp
qed

subsection \<open>Stopping a session\<close>

text \<open>
  Claim C2. \<open>stopSession\<close> on a session without readings leaves the history as it is. On
  a session with at least one reading, in any state the page can reach, it puts one
  summary of the session at index 0, moves every earlier entry one place down and keeps
  at most 10 entries.
\<close>

theorem stop_records_one_summary:
  "(sessionData s = [] \<longrightarrow> recentSessions (stopSession now w s) = recentSessions s)
   \<and> (reachable s \<and> sessionData s \<noteq> [] \<longrightarrow>
        (\<exists>t0. sessionStartTime s = Some t0
           \<and> recentSessions (stopSession now w s) = take 10 (summary t0 now s # recentSessions s)
           \<and> recentSessions (stopSession now w s) ! 0 = summary t0 now s)
        \<and> length (recentSessions (stopSession now w s)) = min 10 (length (recentSessions s) + 1)
        \<and> (\<forall>i. i + 1 < length (recentSessions (stopSession now w s)) \<longrightarrow>
              recentSessions (stopSession now w s) ! (i + 1) = recentSessions s ! i))"
proof (intro conjI impI)
  assume "sessionData s = []"
  then show "recentSessions (stopSession now w s) = recentSessions s"
    by (simp add: stopSession_history_empty)
next
  assume a: "reachable s \<and> sessionData s \<noteq> []"
  then obtain t0 where t0: "sessionStartTime s = Some t0"
    using reachable_started[of s] by auto
  have h: "recentSessions (stopSession now w s) = take 10 (summary t0 now s # recentSessions s)"
    using a t0 by (simp add: stopSession_history)
  show "\<exists>t0. sessionStartTime s = Some t0
           \<and> recentSessions (stopSession now w s) = take 10 (summary t0 now s # recentSessions s)
           \<and> recentSessions (stopSession now w s) ! 0 = summary t0 now s"
    using t0 h by simp
  show "length (recentSessions (stopSession now w s)) = min 10 (length (recentSessions s) + 1)"
    by (simp add: h min.commute)
  show "\<forall>i. i + 1 < length (recentSessions (stopSession now w s)) \<longrightarrow>
          recentSessions (stopSession now w s) ! (i + 1) = recentSessions s ! i"
    by (simp add: h)
qed

theorem stop_records_one_summary_witness:
  "recentSessions (stopSession 9000 True (startSession 0 0 loadedPage)) = tenEntries
   \<and> recentSessions (stopSession 9000 True busySession) =
       JObj [(''start'', JDate (Some 0)), (''end'', JDate (Some 9000)),
             (''durationMs'', JNum (Fin 9000)), (''totalAlerts'', JNum (Fin 1)),
             (''avgBlinkRate'', JNum (Fin 15)), (''peakDrowsiness'', JNum (Fin 80)),
             (''points'', JNum (Fin 2))]
       # map (\<lambda>i. JNum (Fin (real_of_int i))) [1..9]"
proof -
  have e: "sessionData (startSession 0 0 loadedPage) = []"
    "recentSessions (startSession 0 0 loadedPage) = tenEntries"
    by (simp_all add: startSession_fields loadedPage_def)
  have b: "reachable busySession \<and> sessionData busySession \<noteq> []"
    using busySession_fields(6) reachable_busySession by auto
  have t: "take 9 tenEntries = map (\<lambda>i. JNum (Fin (real_of_int i))) [1..9]"
    by (simp add: tenEntries_def upto.simps)
  have "recentSessions (stopSession 9000 True (startSession 0 0 loadedPage)) = tenEntries"
    using stop_records_one_summary[where s = "startSession 0 0 loadedPage" and now = 9000
        and w = True] e by simp
  moreover have "\<exists>t0. sessionStartTime busySession = Some t0
           \<and> recentSessions (stopSession 9000 True busySession)
               = take 10 (summary t0 9000 busySession # recentSessions busySession)"
    using stop_records_one_summary[where s = busySession and now = 9000 and w = True] b
    by blast
  ultimately show ?thesis
    by (auto simp: summary_busySession busySession_fields t simp del: upto.simps)
qed

subsection \<open>Stopping twice\<close>

text \<open>
  Claim C3, as the code has it. A second \<open>stopSession\<close> right after a first leaves the
  session data, the alert counter, the active flag and the simulator's timer as the first
  left them. It leaves the history as well when the session has no reading or was never
  started.
\<close>

theorem stop_twice:
  "sessionData (stopSession now' w' (stopSession now w s)) = sessionData (stopSession now w s)
   \<and> totalAlerts (stopSession now' w' (stopSession now w s)) = totalAlerts (stopSession now w s)
   \<and> isSessionActive (stopSession now' w' (stopSession now w s))
       = isSessionActive (stopSession now w s)
   \<and> simulatorIntervalId (stopSession now' w' (stopSession now w s))
       = simulatorIntervalId (stopSession now w s)
   \<and> timers (stopSession now' w' (stopSession now w s)) = timers (stopSession now w s)
   \<and> (sessionData s = [] \<or> sessionStartTime s = None \<longrightarrow>
        recentSessions (stopSession now' w' (stopSession now w s))
          = recentSessions (stopSession now w s))"
proof -
  have id: "simulatorIntervalId (stopSession now w s) = None
            \<or> simulatorIntervalId (stopSession now w s) = Some 0"
    by (auto simp: stopSession_def Let_def saveRecentSession_fields stopSimulator_def
        split: option.splits)
  have st: "stopSimulator ((stopSession now w s)\<lparr>isSessionActive := False\<rparr>)
            = (stopSession now w s)\<lparr>isSessionActive := False\<rparr>"
    using id by (auto simp: stopSimulator_def)
  have tm: "simulatorIntervalId (stopSession now' w' (stopSession now w s))
              = simulatorIntervalId (stopSession now w s)
            \<and> timers (stopSession now' w' (stopSession now w s)) = timers (stopSession now w s)"
    by (simp add: stopSession_def[of now' w'] Let_def st saveRecentSession_fields)
  have hs: "sessionData s = [] \<or> sessionStartTime s = None \<longrightarrow>
        recentSessions (stopSession now' w' (stopSession now w s))
          = recentSessions (stopSession now w s)"
    by (auto intro!: stopSession_history_empty simp: stopSession_fields)
  show ?thesis
    using tm hs by (simp add: stopSession_fields)
qed

theorem stop_twice_witness:
  "recentSessions (stopSession 9500 True (stopSession 9000 True (startSession 0 0 loadedPage)))
     = recentSessions (stopSession 9000 True (startSession 0 0 loadedPage))
   \<and> isSessionActive (stopSession 9500 True (stopSession 9000 True busySession)) = False
   \<and> totalAlerts (stopSession 9500 True (stopSession 9000 True busySession)) = 1"
proof -
  have e: "sessionData (startSession 0 0 loadedPage) = []"
    by (simp add: startSession_fields)
  have a: "totalAlerts (stopSession 9000 True busySession) = 1"
    "isSessionActive (stopSession 9000 True busySession) = False"
    by (simp_all add: stopSession_fields busySession_fields)
  from stop_twice[where now' = 9500 and w' = True and now = 9000 and w = True
      and s = "startSession 0 0 loadedPage"] e
    stop_twice[where now' = 9500 and w' = True and now = 9000 and w = True and s = busySession] a
  show ?thesis by simp
qed

text \<open>
  The claim has the second call add no history entry. \<open>stopSession\<close> does not look at the
  active flag and does not empty \<open>sessionData\<close>, so the second call finds the readings
  still there and records the session again: after one call the history of the example
  begins with one summary of the session, after two calls with two.
\<close>

theorem stop_twice_counterexample:
  "recentSessions (stopSession 9500 True (stopSession 9000 True busySession))
     \<noteq> recentSessions (stopSession 9000 True busySession)
   \<and> recentSessions (stopSession 9500 True (stopSession 9000 True busySession)) ! 0
       = summary 0 9500 busySession
   \<and> recentSessions (stopSession 9500 True (stopSession 9000 True busySession)) ! 1
       = summary 0 9000 busySession
   \<and> recentSessions (stopSession 9000 True busySession) ! 0 = summary 0 9000 busySession
   \<and> recentSessions (stopSession 9000 True busySession) ! 1 = JNum (Fin 1)"
proof -
  have b: "sessionData busySession \<noteq> []" "sessionStartTime busySession = Some 0"
    using busySession_fields(6) by (auto simp: busySession_fields(1))
  have one: "recentSessions (stopSession 9000 True busySession)
             = take 10 (summary 0 9000 busySession # recentSessions busySession)"
    using b by (rule stopSession_history)
  have b': "sessionData (stopSession 9000 True busySession) \<noteq> []"
    "sessionStartTime (stopSession 9000 True busySession) = Some 0"
    using b by (simp_all add: stopSession_fields)
  have s': "summary 0 9500 (stopSession 9000 True busySession) = summary 0 9500 busySession"
    by (rule summary_cong) (simp_all add: stopSession_fields)
  have two: "recentSessions (stopSession 9500 True (stopSession 9000 True busySession))
             = take 10 (summary 0 9500 busySession
                        # recentSessions (stopSession 9000 True busySession))"
    using stopSession_history[OF b', of 9500 True] s' by simp
  have u: "tenEntries = JNum (Fin 1) # map (\<lambda>i. JNum (Fin (real_of_int i))) [2..10]"
    by (simp add: tenEntries_def upto.simps)
  have d: "summary 0 9000 busySession \<noteq> JNum (Fin 1)"
    by (simp add: summary_def Let_def)
  show ?thesis
    using d by (simp add: two one busySession_fields u del: upto.simps)
qed

subsection \<open>The battery of the simulator\<close>

lemma blinkStep_battery: "sim_batteryLevel (snd (blinkStep t st)) = sim_batteryLevel st"
  by (simp add: blinkStep_def)

lemma tiltStep_battery: "sim_batteryLevel (tiltStep t st) = sim_batteryLevel st"
  by (simp add: tiltStep_def Let_def)

lemma simulatorTick_battery:
  "isSessionActive s \<Longrightarrow>
   batteryOf (snd (simulatorTick t s)) = max 5 (batteryOf s - (0.15 + r_battery t * 0.1))"
  using blinkStep_battery[of t "simulatorState s"]
  by (auto simp: simulatorTick_def batteryOf_def Let_def processSensorData_frame tiltStep_battery
      split: prod.splits)

lemma runTicks_snoc: "runTicks (ts @ [t]) s = snd (simulatorTick t (runTicks ts s))"
  by (induction ts arbitrary: s) simp_all

lemma runTicks_active: "isSessionActive (runTicks ts s) = isSessionActive s"
  by (induction ts arbitrary: s) (simp_all add: simulatorTick_timer)

lemma runTicks_take_Suc:
  "k < length ts \<Longrightarrow>
   runTicks (take (Suc k) ts) s = snd (simulatorTick (ts ! k) (runTicks (take k ts) s))"
  by (simp add: take_Suc_conv_app_nth runTicks_snoc)

lemma drain_bounds:
  assumes "unit_interval r"
  shows "(0.15::real) \<le> 0.15 + r * 0.1" and "0.15 + r * 0.1 < (0.25::real)"
  using assms by (simp_all add: unit_interval_def)

lemma runTicks_battery_range:
  assumes "isSessionActive s" and "5 \<le> batteryOf s" and "batteryOf s \<le> 100"
    and "\<forall>t\<in>set ts. unit_interval (r_battery t)"
  shows "5 \<le> batteryOf (runTicks ts s) \<and> batteryOf (runTicks ts s) \<le> 100"
  using assms
proof (induction ts arbitrary: s)
  case Nil
  then show ?case by simp
next
  case (Cons t ts)
  let ?s1 = "snd (simulatorTick t s)"
  have r: "unit_interval (r_battery t)" using Cons.prems(4) by simp
  have b: "batteryOf ?s1 = max 5 (batteryOf s - (0.15 + r_battery t * 0.1))"
    using Cons.prems(1) by (rule simulatorTick_battery)
  have "5 \<le> batteryOf ?s1" "batteryOf ?s1 \<le> 100"
    using b Cons.prems(3) drain_bounds(1)[OF r] by simp_all
  moreover have "isSessionActive ?s1"
    using Cons.prems(1) by (simp add: simulatorTick_timer)
  moreover have "\<forall>t\<in>set ts. unit_interval (r_battery t)"
    using Cons.prems(4) by simp
  ultimately show ?case
    using Cons.IH[of ?s1] by simp
qed

lemma startSession_battery:
  "simulatorIntervalId s = None \<Longrightarrow> batteryOf (startSession now nowMs s) = 100"
  by (simp add: batteryOf_def startSession_def startSimulator_def resetChart_def clearAlert_def
      Let_def)

text \<open>
  Claim C8. A session is started in a state where no timer is scheduled, and the ticks
  \<open>ts\<close> run in it, each with a \<open>Math.random\<close> draw for the battery in the unit interval.
  The battery level is 100 at the start. Every tick takes from it an amount \<open>d\<close> with
  \<open>0.15 \<le> d < 0.25\<close> and stops at 5, so the level never rises and stays between 5 and 100
  after any number of ticks. Stopping a session, receiving a reading from the hub and
  loading the history leave the level as it is.
\<close>

theorem battery_drains_to_floor:
  assumes "\<forall>t\<in>set ts. unit_interval (r_battery t)" and "simulatorIntervalId s = None"
  shows "batteryOf (startSession now nowMs s) = 100
         \<and> (\<forall>k<length ts. \<exists>d. 0.15 \<le> d \<and> d < 0.25
               \<and> batteryOf (runTicks (take (Suc k) ts) (startSession now nowMs s))
                   = max 5 (batteryOf (runTicks (take k ts) (startSession now nowMs s)) - d))
         \<and> (\<forall>k<length ts.
               batteryOf (runTicks (take (Suc k) ts) (startSession now nowMs s))
                 \<le> batteryOf (runTicks (take k ts) (startSession now nowMs s)))
         \<and> (\<forall>k\<le>length ts.
               5 \<le> batteryOf (runTicks (take k ts) (startSession now nowMs s))
               \<and> batteryOf (runTicks (take k ts) (startSession now nowMs s)) \<le> 100)
         \<and> batteryOf (stopSession now2 w s2) = batteryOf s2
         \<and> batteryOf (snd (onReceiveSensorData now3 raw s2)) = batteryOf s2
         \<and> (loadRecentSessions s2 = Inr s3 \<longrightarrow> batteryOf s3 = batteryOf s2)"
proof -
  let ?s0 = "startSession now nowMs s"
  let ?B = "\<lambda>k. batteryOf (runTicks (take k ts) ?s0)"
  have b0: "batteryOf ?s0 = 100"
    using assms(2) by (rule startSession_battery)
  have act: "isSessionActive ?s0"
    by (simp add: startSession_fields)
  have range: "5 \<le> ?B k \<and> ?B k \<le> 100" for k
  proof -
    have "\<forall>t\<in>set (take k ts). unit_interval (r_battery t)"
      using assms(1) by (auto dest: in_set_takeD)
    then show ?thesis
      using runTicks_battery_range[OF act, of "take k ts"] b0 by simp
  qed
  have step: "?B (Suc k) = max 5 (?B k - (0.15 + r_battery (ts ! k) * 0.1))"
    if "k < length ts" for k
  proof -
    have "isSessionActive (runTicks (take k ts) ?s0)"
      using act by (simp add: runTicks_active)
    then show ?thesis
      by (simp only: runTicks_take_Suc[OF that] simulatorTick_battery)
  qed
  have draw: "unit_interval (r_battery (ts ! k))" if "k < length ts" for k
    using assms(1) that by simp
  have 1: "\<forall>k<length ts. \<exists>d. 0.15 \<le> d \<and> d < 0.25 \<and> ?B (Suc k) = max 5 (?B k - d)"
  proof (intro allI impI)
    fix k assume k: "k < length ts"
    show "\<exists>d. 0.15 \<le> d \<and> d < 0.25 \<and> ?B (Suc k) = max 5 (?B k - d)"
      using step[OF k] drain_bounds[OF draw[OF k]] by blast
  qed
  have 2: "\<forall>k<length ts. ?B (Suc k) \<le> ?B k"
  proof (intro allI impI)
    fix k assume k: "k < length ts"
    show "?B (Suc k) \<le> ?B k"
      using step[OF k] drain_bounds(1)[OF draw[OF k]] range[of k] by simp
  qed
  have 3: "\<forall>k\<le>length ts. 5 \<le> ?B k \<and> ?B k \<le> 100"
    using range by blast
  have 4: "batteryOf (stopSession now2 w s2) = batteryOf s2"
    by (simp add: batteryOf_def stopSession_def stopSimulator_def saveRecentSession_def Let_def
        split: option.splits)
  have 5: "batteryOf (snd (onReceiveSensorData now3 raw s2)) = batteryOf s2"
    by (simp add: batteryOf_def onReceiveSensorData_def processSensorData_frame)
  have 6: "loadRecentSessions s2 = Inr s3 \<longrightarrow> batteryOf s3 = batteryOf s2"
    using loadRecentSessions_result[of s2 s3] by (auto simp: batteryOf_def)
  from b0 1 2 3 4 5 6 show ?thesis by blast
qed

lemma simulatorIntervalId_loadedPage: "simulatorIntervalId loadedPage = None"
  by (simp add: loadedPage_def initial_def)

theorem battery_drains_to_floor_witness:
  "batteryOf (startSession 0 0 loadedPage) = 100
   \<and> batteryOf (runTicks [tickWith 2000 0.5] (startSession 0 0 loadedPage)) \<le> 100
   \<and> batteryOf (runTicks [tickWith 2000 0.5, tickWith 4000 0.5] (startSession 0 0 loadedPage))
       \<le> batteryOf (runTicks [tickWith 2000 0.5] (startSession 0 0 loadedPage))
   \<and> 5 \<le> batteryOf (runTicks [tickWith 2000 0.5, tickWith 4000 0.5] (startSession 0 0 loadedPage))
   \<and> batteryOf (stopSession 9000 True busySession) = batteryOf busySession"
proof -
  let ?ts = "[tickWith 2000 0.5, tickWith 4000 0.5]"
  have h: "\<forall>t\<in>set ?ts. unit_interval (r_battery t)"
    by (simp add: tickWith_def unit_interval_def)
  note th = battery_drains_to_floor[OF h simulatorIntervalId_loadedPage,
      where now = 0 and nowMs = 0 and ?s2.0 = busySession and ?now2.0 = 9000 and w = True]
  have a: "batteryOf (startSession 0 0 loadedPage) = 100"
    using th by blast
  have m: "\<forall>k<length ?ts. batteryOf (runTicks (take (Suc k) ?ts) (startSession 0 0 loadedPage))
                 \<le> batteryOf (runTicks (take k ?ts) (startSession 0 0 loadedPage))"
    using th by blast
  have r: "\<forall>k\<le>length ?ts. 5 \<le> batteryOf (runTicks (take k ?ts) (startSession 0 0 loadedPage))
               \<and> batteryOf (runTicks (take k ?ts) (startSession 0 0 loadedPage)) \<le> 100"
    using th by blast
  have s: "batteryOf (stopSession 9000 True busySession) = batteryOf busySession"
    using th by blast
  have m1: "batteryOf (runTicks ?ts (startSession 0 0 loadedPage))
              \<le> batteryOf (runTicks [tickWith 2000 0.5] (startSession 0 0 loadedPage))"
    using m[rule_format, of 1] by simp
  have r1: "batteryOf (runTicks [tickWith 2000 0.5] (startSession 0 0 loadedPage)) \<le> 100"
    using r[rule_format, of 1] by simp
  have r2: "5 \<le> batteryOf (runTicks ?ts (startSession 0 0 loadedPage))"
    using r[rule_format, of 2] by simp
  from a m1 r1 r2 s show ?thesis by simp
qed

text \<open>One tick, worked out: a blink fires, no tilt spike, the battery goes from 100 to 99.8.\<close>

lemma simulatorTick_example:
  "simulatorTick (tickWith 3000 0.5) (startSession 0 0 loadedPage) =
     (Done, snd (simulatorTick (tickWith 3000 0.5) (startSession 0 0 loadedPage)))"
  "sessionData (snd (simulatorTick (tickWith 3000 0.5) (startSession 0 0 loadedPage))) =
     [\<lparr>timestamp = JDate (Some 3000), eyeBlinkRate = Fin 20,
       eyeClosureDuration = JNum (Fin 0.2),
       headMovement = JObj [(''pitch'', JNum (Fin 0)), (''roll'', JNum (Fin 0)),
                            (''yaw'', JNum (Fin 0))],
       drowsinessLevel = Fin 67.5, alertTriggered = JBool False,
       batteryLevel = JNum (Fin 99.8)\<rparr>]"
  "drowsinessChart (snd (simulatorTick (tickWith 3000 0.5) (startSession 0 0 loadedPage))) =
     \<lparr>labels = [Some 3000], dataset0 = [Fin 67.5], dataset1 = [Fin 20]\<rparr>"
  "dom_peakDrowsiness (snd (simulatorTick (tickWith 3000 0.5) (startSession 0 0 loadedPage)))
     = Some (Fin 67.5)"
  by (simp_all add: simulatorTick_def tickWith_def startSession_def startSimulator_def
      resetChart_def clearAlert_def loadedPage_def initial_def Let_def blinkStep_def
      tiltStep_def zeroTilt_def clamp100_def processSensorData_def validate_def
      updateDashboardDisplays_def updateChart_def emptyChart_def checkForAlerts_def
      updateSessionStatistics_def Math_max_def js_rem_def)

subsection \<open>The history across a reload\<close>

text \<open>
  What \<open>stopSession\<close> writes to the storage slot is what \<open>loadRecentSessions\<close> finds when
  the page is opened again.
\<close>

lemma stopSession_localStorage:
  assumes "sessionData s \<noteq> []" and "sessionStartTime s = Some t0"
  shows "localStorage (stopSession now True s) = Holds (JArr (recentSessions (stopSession now True s)))"
  using assms
  by (simp add: stopSession_def Let_def saveRecentSession_def stopSimulator_fields)

lemma history_survives_reload:
  assumes "sessionData s \<noteq> []" and "sessionStartTime s = Some t0"
  shows "\<exists>s'. loadRecentSessions (initial (localStorage (stopSession now True s))) = Inr s'
              \<and> recentSessions s' = recentSessions (stopSession now True s)"
proof -
  have "localStorage (initial sl) = sl" for sl
    by (simp add: initial_def)
  then show ?thesis
    by (simp add: stopSession_localStorage[OF assms] loadRecentSessions_def
        loadRecentSessions_try_def)
qed

end
